theory Spec2Isabelle
  imports Main
begin

section \<open>The WebGL device of the GFX layer (cocos/core/gfx/webgl/webgl-device.ts)\<close>

text \<open>
  A shallow embedding of the class \<open>WebGLDevice\<close>. The device object is a record that is
  passed in and returned; the native rendering context is a record inside it, holding
  what \<open>gl.getExtension\<close> and \<open>gl.getParameter\<close> answer, the native framebuffer binding
  and the list of state-changing native calls made so far. A JavaScript exception is the
  \<open>Inl\<close> branch of a sum. JavaScript numbers that hold sizes, bit counts and counters are
  modelled as \<open>int\<close>.

  Left out are the messages written to the console and the fields that no operation
  below reads back (\<open>_canvas2D\<close>, \<open>_gfxAPI\<close>, \<open>_devicePixelRatio\<close>, \<open>cmdAllocator\<close>). The
  classes of the other backend objects, the command functions of webgl-commands.ts and
  the tables of define.ts are not part of this file; what the device needs from them is
  a parameter of the model, and calls into them are taken to return normally.
\<close>

subsection \<open>Enumerations of the GFX layer that the device uses\<close>

datatype GFXFormat = UNKNOWN | RGBA8 | RGBA16F | RGBA32F | D16 | D16S8 | D24 | D24S8

datatype GFXFeature =
    COLOR_FLOAT | COLOR_HALF_FLOAT | TEXTURE_FLOAT | TEXTURE_HALF_FLOAT
  | TEXTURE_FLOAT_LINEAR | TEXTURE_HALF_FLOAT_LINEAR | FORMAT_RGB8
  | FORMAT_D16 | FORMAT_D24 | FORMAT_D24S8 | ELEMENT_INDEX_UINT | INSTANCED_ARRAYS
  | FORMAT_ETC1 | FORMAT_ETC2 | FORMAT_DXT | FORMAT_PVRTC | FORMAT_ASTC

datatype GFXCommandBufferType = PRIMARY | SECONDARY

datatype GFXQueueType = GRAPHICS | COMPUTE | TRANSFER

datatype GFXTextureType = TEX1D | TEX2D | TEX3D | CUBE

datatype GFXTextureUsageBit = SAMPLED

datatype GFXTextureFlagBit = GEN_MIPMAP | CUBEMAP

datatype js_error = TypeError | RangeError

subsection \<open>Textures, queues and the other backend objects\<close>

record IGFXTextureInfo =
  tex_type :: GFXTextureType
  usage :: GFXTextureUsageBit
  format :: GFXFormat
  tex_width :: int
  tex_height :: int
  tex_layerCount :: "int option"
  flags :: "GFXTextureFlagBit set"

text \<open>
  The class \<open>WebGLTexture\<close> is not in this file. An object of it is modelled by the
  configuration its initializer stored and by the byte size it reports.
\<close>

record WebGLTexture =
  tex_info :: "IGFXTextureInfo option"
  tex_size :: nat

definition new_WebGLTexture :: WebGLTexture where
  "new_WebGLTexture = \<lparr>tex_info = None, tex_size = 0\<rparr>"

record IGFXQueueInfo =
  queue_info_type :: GFXQueueType

record WebGLQueue =
  queue_type :: "GFXQueueType option"
  queue_numDrawCalls :: int
  queue_numInstances :: int
  queue_numTris :: int

definition new_WebGLQueue :: WebGLQueue where
  "new_WebGLQueue = \<lparr>queue_type = None, queue_numDrawCalls = 0, queue_numInstances = 0, queue_numTris = 0\<rparr>"

text \<open>
  Modelled from the spec: \<open>WebGLQueue.clear\<close> is in webgl-queue.ts, which is not among the
  sources. The spec says that it "clears the queue's per-frame counters".
\<close>

definition queue_clear :: "WebGLQueue \<Rightarrow> WebGLQueue" where
  "queue_clear q = q\<lparr>queue_numDrawCalls := 0, queue_numInstances := 0, queue_numTris := 0\<rparr>"

record IGFXCommandBufferInfo =
  cmdbuf_type :: GFXCommandBufferType

datatype backend_class =
    WebGLBuffer_class | WebGLSampler_class | WebGLDescriptorSet_class | WebGLShader_class
  | WebGLInputAssembler_class | WebGLRenderPass_class | WebGLFramebuffer_class
  | WebGLDescriptorSetLayout_class | WebGLPipelineLayout_class | WebGLPipelineState_class
  | WebGLFence_class | WebGLPrimaryCommandBuffer_class | WebGLCommandBuffer_class

text \<open>
  An object of one of the other backend classes: the class it was constructed from and
  the configuration its initializer stored.
\<close>

record 'i backend_object =
  obj_class :: backend_class
  obj_info :: "'i option"

definition new_object :: "backend_class \<Rightarrow> 'i backend_object" where
  "new_object c = \<lparr>obj_class = c, obj_info = None\<rparr>"

text \<open>
  The initializers of the backend classes are not in this file; they are parameters.
  Each takes the configuration and the freshly constructed object and returns what
  \<open>initialize(info)\<close> returns together with the object as the initializer left it.
\<close>

record 'i backend =
  texture_initialize :: "IGFXTextureInfo \<Rightarrow> WebGLTexture \<Rightarrow> bool \<times> WebGLTexture"
  queue_initialize :: "IGFXQueueInfo \<Rightarrow> WebGLQueue \<Rightarrow> bool \<times> WebGLQueue"
  cmdbuf_initialize :: "IGFXCommandBufferInfo \<Rightarrow> IGFXCommandBufferInfo backend_object
                          \<Rightarrow> bool \<times> IGFXCommandBufferInfo backend_object"
  object_initialize :: "'i \<Rightarrow> 'i backend_object \<Rightarrow> bool \<times> 'i backend_object"

subsection \<open>Copy regions and framebuffers\<close>

record GFXOffset =
  off_x :: int
  off_y :: int
  off_z :: int

record GFXExtent =
  ext_width :: int
  ext_height :: int
  ext_depth :: int

record GFXTextureSubres =
  mipLevel :: int
  baseArrayLayer :: int
  layerCount :: int

record GFXRect =
  rect_x :: int
  rect_y :: int
  rect_width :: int
  rect_height :: int

datatype GFXFilter = NONE_FILTER | POINT | LINEAR | ANISOTROPIC

record GFXBufferTextureCopy =
  buffStride :: int
  buffTexHeight :: int
  texOffset :: GFXOffset
  texExtent :: GFXExtent
  texSubres :: GFXTextureSubres

subsection \<open>The native rendering context\<close>

text \<open>An extension object and a native framebuffer object are opaque; each is named by a number.\<close>

type_synonym ext_handle = nat
type_synonym gl_framebuffer = nat

record WebGLGPUTexture =
  gpu_format :: GFXFormat

record WebGLGPUFramebuffer =
  gpuColorTextures :: "WebGLGPUTexture list"
  glFramebuffer :: "gl_framebuffer option"

record WebGLFramebuffer =
  gpuFramebuffer :: WebGLGPUFramebuffer

text \<open>
  The native calls that change state or move data. \<open>StateCall\<close> stands for an immediate
  state-setting call, named by its entry point; \<open>CmdFuncCopyBuffersToTexture\<close> stands for
  the upload that the command function of webgl-commands.ts (not among the sources) issues.
\<close>

datatype gl_call =
    BindFramebuffer "gl_framebuffer option"
  | ReadPixels int int int int
  | StateCall string
  | CmdFuncCopyBuffersToTexture "nat list list" WebGLTexture "GFXBufferTextureCopy list"

record WebGLRenderingContext =
  extensionTable :: "string \<Rightarrow> ext_handle option"
  supportedExtensions :: "string list option"
  RENDERER :: string
  VENDOR :: string
  UNMASKED_RENDERER_WEBGL :: string
  UNMASKED_VENDOR_WEBGL :: string
  VERSION :: string
  MAX_VERTEX_ATTRIBS :: int
  MAX_VERTEX_UNIFORM_VECTORS :: int
  MAX_FRAGMENT_UNIFORM_VECTORS :: int
  MAX_TEXTURE_IMAGE_UNITS :: int
  MAX_VERTEX_TEXTURE_IMAGE_UNITS :: int
  MAX_TEXTURE_SIZE :: int
  MAX_CUBE_MAP_TEXTURE_SIZE :: int
  DEPTH_BITS :: int
  STENCIL_BITS :: int
  FRAMEBUFFER_BINDING :: "gl_framebuffer option"
  calls :: "gl_call list"

text \<open>\<open>gl.bindFramebuffer(gl.FRAMEBUFFER, fbo)\<close>, \<open>gl.readPixels\<close> and the other immediate calls.\<close>

definition gl_bindFramebuffer :: "gl_framebuffer option \<Rightarrow> WebGLRenderingContext \<Rightarrow> WebGLRenderingContext" where
  "gl_bindFramebuffer fbo gl = gl\<lparr>FRAMEBUFFER_BINDING := fbo, calls := calls gl @ [BindFramebuffer fbo]\<rparr>"

definition gl_readPixels :: "int \<Rightarrow> int \<Rightarrow> int \<Rightarrow> int \<Rightarrow> WebGLRenderingContext \<Rightarrow> WebGLRenderingContext" where
  "gl_readPixels x y w h gl = gl\<lparr>calls := calls gl @ [ReadPixels x y w h]\<rparr>"

definition gl_state :: "string \<Rightarrow> WebGLRenderingContext \<Rightarrow> WebGLRenderingContext" where
  "gl_state name gl = gl\<lparr>calls := calls gl @ [StateCall name]\<rparr>"

subsection \<open>getExtension: the lookup through the vendor prefixes\<close>

definition prefixes :: "string list" where
  "prefixes = ['''', ''WEBKIT_'', ''MOZ_'']"

text \<open>
  The loop of \<open>getExtension\<close> over the prefix list. It returns the names it asked the
  context for, in the order asked, and the handle found (an extension object is truthy,
  \<open>null\<close> is not).
\<close>

fun getExtension_loop :: "WebGLRenderingContext \<Rightarrow> string list \<Rightarrow> string \<Rightarrow> string list \<times> ext_handle option" where
  "getExtension_loop gl [] ext = ([], None)"
| "getExtension_loop gl (p # ps) ext =
     (case extensionTable gl (p @ ext) of
        Some h \<Rightarrow> ([p @ ext], Some h)
      | None \<Rightarrow> (case getExtension_loop gl ps ext of (asked, r) \<Rightarrow> ((p @ ext) # asked, r)))"

definition getExtension :: "WebGLRenderingContext \<Rightarrow> string \<Rightarrow> ext_handle option" where
  "getExtension gl ext = snd (getExtension_loop gl prefixes ext)"

subsection \<open>The depth-stencil format derived from the bit depths\<close>

definition deriveDepthStencilFmt :: "int \<Rightarrow> int \<Rightarrow> GFXFormat" where
  "deriveDepthStencilFmt depthBits stencilBits =
     (if depthBits = 24 then
        (if stencilBits = 8 then D24S8 else D24)
      else
        (if stencilBits = 8 then D16S8 else D16))"

subsection \<open>Platform identity, canvas and device configuration\<close>

datatype browser_type = BROWSER_TYPE_UC | BROWSER_TYPE_CHROME | BROWSER_TYPE_SAFARI | BROWSER_TYPE_UNKNOWN

datatype os_type = OS_IOS | OS_ANDROID | OS_WINDOWS | OS_UNKNOWN

text \<open>
  What the probe \<open>loadRuntime().getFeature('webgl.extensions.oes_vertex_array_object.revision')\<close>
  meets: no function \<open>loadRuntime\<close>, a falsy runtime object, no function \<open>getFeature\<close>,
  a number, or a value that compares false with every number (\<open>undefined\<close>, \<open>NaN\<close>).
\<close>

datatype runtime_feature =
    NoLoadRuntime | RuntimeFalsy | NoGetFeature | Revision int | NotANumber

text \<open>
  The build constants (internal:constants, macro) and the values of \<open>sys\<close> that the device reads.
\<close>

record platform =
  ALIPAY :: bool
  RUNTIME_BASED :: bool
  BYTEDANCE :: bool
  WECHAT :: bool
  VIVO :: bool
  ENABLE_TRANSPARENT_CANVAS :: bool
  browserType :: browser_type
  os :: os_type
  osMainVersion :: int
  loadRuntime :: runtime_feature

record WebGLContextAttributes =
  attr_alpha :: bool
  attr_antialias :: bool
  attr_depth :: bool
  attr_stencil :: bool
  attr_premultipliedAlpha :: bool
  attr_preserveDrawingBuffer :: bool
  attr_powerPreference :: string
  attr_failIfMajorPerformanceCaveat :: bool

datatype getContext_result = Throws | ReturnsNull | Returns WebGLRenderingContext

record HTMLCanvasElement =
  canvas_width :: int
  canvas_height :: int
  getContext :: "WebGLContextAttributes \<Rightarrow> getContext_result"

text \<open>The binding-slot remapping table is passed through unread; it is an opaque list here.\<close>

type_synonym GFXBindingMappingInfo = "int list"

record IGFXDeviceInfo =
  canvasElm :: HTMLCanvasElement
  info_isAntialias :: "bool option"
  info_isPremultipliedAlpha :: "bool option"
  info_nativeWidth :: "int option"
  info_nativeHeight :: "int option"
  info_bindingMappingInfo :: "GFXBindingMappingInfo option"

subsection \<open>The device object\<close>

text \<open>The nullable extension fields of the device, \<open>_EXT_texture_filter_anisotropic\<close> and so on.\<close>

record extension_fields =
  EXT_texture_filter_anisotropic :: "ext_handle option"
  EXT_frag_depth :: "ext_handle option"
  EXT_shader_texture_lod :: "ext_handle option"
  EXT_sRGB :: "ext_handle option"
  OES_vertex_array_object :: "ext_handle option"
  EXT_color_buffer_half_float :: "ext_handle option"
  WEBGL_color_buffer_float :: "ext_handle option"
  WEBGL_compressed_texture_etc1 :: "ext_handle option"
  WEBGL_compressed_texture_etc :: "ext_handle option"
  WEBGL_compressed_texture_pvrtc :: "ext_handle option"
  WEBGL_compressed_texture_astc :: "ext_handle option"
  WEBGL_compressed_texture_s3tc :: "ext_handle option"
  WEBGL_compressed_texture_s3tc_srgb :: "ext_handle option"
  WEBGL_debug_shaders :: "ext_handle option"
  WEBGL_draw_buffers :: "ext_handle option"
  WEBGL_lose_context :: "ext_handle option"
  WEBGL_depth_texture :: "ext_handle option"
  WEBGL_debug_renderer_info :: "ext_handle option"
  OES_texture_half_float :: "ext_handle option"
  OES_texture_half_float_linear :: "ext_handle option"
  OES_texture_float :: "ext_handle option"
  OES_texture_float_linear :: "ext_handle option"
  OES_standard_derivatives :: "ext_handle option"
  OES_element_index_uint :: "ext_handle option"
  ANGLE_instanced_arrays :: "ext_handle option"

record WebGLStateCache =
  cache_glFramebuffer :: "gl_framebuffer option"

record WebGLDevice =
  stateCache :: WebGLStateCache
  nullTex2D :: "WebGLTexture option"
  nullTexCube :: "WebGLTexture option"
  webGLRC :: "WebGLRenderingContext option"
  isAntialias :: bool
  isPremultipliedAlpha :: bool
  useVAO :: bool
  destroyShadersImmediately :: bool
  noCompressedTexSubImage2D :: bool
  bindingMappingInfo :: "GFXBindingMappingInfo option"
  extensions :: "string list option"
  exts :: extension_fields
  canvas :: "HTMLCanvasElement option"
  deviceName :: string
  renderer :: string
  vendor :: string
  version :: string
  maxVertexAttributes :: int
  maxVertexUniformVectors :: int
  maxFragmentUniformVectors :: int
  maxTextureUnits :: int
  maxVertexTextureUnits :: int
  maxTextureSize :: int
  maxCubeMapTextureSize :: int
  depthBits :: int
  stencilBits :: int
  width :: int
  height :: int
  nativeWidth :: int
  nativeHeight :: int
  colorFmt :: GFXFormat
  depthStencilFmt :: GFXFormat
  features :: "GFXFeature \<Rightarrow> bool"
  queue :: "WebGLQueue option"
  numDrawCalls :: int
  numInstances :: int
  numTris :: int

text \<open>
  A device as its constructor leaves it. The fields declared in this class take the
  initial values written there; the fields inherited from \<open>GFXDevice\<close> (declared in
  device.ts, not among the sources) are taken as null, zero, empty and false.
\<close>

definition no_extensions :: extension_fields where
  "no_extensions = \<lparr>
     EXT_texture_filter_anisotropic = None, EXT_frag_depth = None, EXT_shader_texture_lod = None,
     EXT_sRGB = None, OES_vertex_array_object = None, EXT_color_buffer_half_float = None,
     WEBGL_color_buffer_float = None, WEBGL_compressed_texture_etc1 = None,
     WEBGL_compressed_texture_etc = None, WEBGL_compressed_texture_pvrtc = None,
     WEBGL_compressed_texture_astc = None, WEBGL_compressed_texture_s3tc = None,
     WEBGL_compressed_texture_s3tc_srgb = None, WEBGL_debug_shaders = None,
     WEBGL_draw_buffers = None, WEBGL_lose_context = None, WEBGL_depth_texture = None,
     WEBGL_debug_renderer_info = None, OES_texture_half_float = None,
     OES_texture_half_float_linear = None, OES_texture_float = None,
     OES_texture_float_linear = None, OES_standard_derivatives = None,
     OES_element_index_uint = None, ANGLE_instanced_arrays = None\<rparr>"

definition new_WebGLDevice :: WebGLDevice where
  "new_WebGLDevice = \<lparr>
     stateCache = \<lparr>cache_glFramebuffer = None\<rparr>,
     nullTex2D = None, nullTexCube = None, webGLRC = None,
     isAntialias = True, isPremultipliedAlpha = True, useVAO = False,
     destroyShadersImmediately = True, noCompressedTexSubImage2D = False,
     bindingMappingInfo = None, extensions = None, exts = no_extensions,
     canvas = None, deviceName = [], renderer = [], vendor = [], version = [],
     maxVertexAttributes = 0, maxVertexUniformVectors = 0, maxFragmentUniformVectors = 0,
     maxTextureUnits = 0, maxVertexTextureUnits = 0, maxTextureSize = 0,
     maxCubeMapTextureSize = 0, depthBits = 0, stencilBits = 0,
     width = 0, height = 0, nativeWidth = 0, nativeHeight = 0,
     colorFmt = UNKNOWN, depthStencilFmt = UNKNOWN, features = (\<lambda>f. False),
     queue = None, numDrawCalls = 0, numInstances = 0, numTris = 0\<rparr>"

subsection \<open>initialize, step by step\<close>

text \<open>The configuration fields copied into the device; an absent field keeps the default.\<close>

definition configure :: "IGFXDeviceInfo \<Rightarrow> WebGLDevice \<Rightarrow> WebGLDevice" where
  "configure info d =
     (let d = d\<lparr>canvas := Some (canvasElm info)\<rparr>;
          d = (case info_isAntialias info of Some b \<Rightarrow> d\<lparr>isAntialias := b\<rparr> | None \<Rightarrow> d);
          d = (case info_isPremultipliedAlpha info of Some b \<Rightarrow> d\<lparr>isPremultipliedAlpha := b\<rparr> | None \<Rightarrow> d);
          d = (case info_bindingMappingInfo info of Some m \<Rightarrow> d\<lparr>bindingMappingInfo := Some m\<rparr> | None \<Rightarrow> d)
      in d)"

definition webGLCtxAttribs :: "platform \<Rightarrow> WebGLDevice \<Rightarrow> WebGLContextAttributes" where
  "webGLCtxAttribs p d = \<lparr>
     attr_alpha = ENABLE_TRANSPARENT_CANVAS p,
     attr_antialias = isAntialias d,
     attr_depth = True,
     attr_stencil = True,
     attr_premultipliedAlpha = isPremultipliedAlpha d,
     attr_preserveDrawingBuffer = False,
     attr_powerPreference = ''default'',
     attr_failIfMajorPerformanceCaveat = False\<rparr>"

text \<open>Renderer, vendor, version and the numeric limits, read from the context.\<close>

definition queryIdentity :: "WebGLRenderingContext \<Rightarrow> WebGLDevice \<Rightarrow> WebGLDevice" where
  "queryIdentity gl d =
     (let info_ext = getExtension gl ''WEBGL_debug_renderer_info'';
          d = d\<lparr>deviceName := ''WebGL'', exts := (exts d)\<lparr>WEBGL_debug_renderer_info := info_ext\<rparr>\<rparr>;
          d = (if info_ext \<noteq> None
               then d\<lparr>renderer := UNMASKED_RENDERER_WEBGL gl, vendor := UNMASKED_VENDOR_WEBGL gl\<rparr>
               else d\<lparr>renderer := RENDERER gl, vendor := VENDOR gl\<rparr>)
      in d\<lparr>version := VERSION gl,
            maxVertexAttributes := MAX_VERTEX_ATTRIBS gl,
            maxVertexUniformVectors := MAX_VERTEX_UNIFORM_VECTORS gl,
            maxFragmentUniformVectors := MAX_FRAGMENT_UNIFORM_VECTORS gl,
            maxTextureUnits := MAX_TEXTURE_IMAGE_UNITS gl,
            maxVertexTextureUnits := MAX_VERTEX_TEXTURE_IMAGE_UNITS gl,
            maxTextureSize := MAX_TEXTURE_SIZE gl,
            maxCubeMapTextureSize := MAX_CUBE_MAP_TEXTURE_SIZE gl,
            depthBits := DEPTH_BITS gl,
            stencilBits := STENCIL_BITS gl\<rparr>)"

text \<open>\<open>if (ALIPAY) { this._depthBits = 24; }\<close>\<close>

definition overrideDepthBits :: "platform \<Rightarrow> WebGLDevice \<Rightarrow> WebGLDevice" where
  "overrideDepthBits p d = (if ALIPAY p then d\<lparr>depthBits := 24\<rparr> else d)"

text \<open>\<open>a || b\<close> on an optional number: \<open>b\<close> when \<open>a\<close> is undefined or zero.\<close>

definition or_else :: "int option \<Rightarrow> int \<Rightarrow> int" where
  "or_else a b = (case a of None \<Rightarrow> b | Some n \<Rightarrow> if n = 0 then b else n)"

definition readSizes :: "IGFXDeviceInfo \<Rightarrow> WebGLDevice \<Rightarrow> WebGLDevice" where
  "readSizes info d =
     (let d = d\<lparr>width := canvas_width (canvasElm info), height := canvas_height (canvasElm info)\<rparr>
      in d\<lparr>nativeWidth := max (or_else (info_nativeWidth info) (width d)) 0,
            nativeHeight := max (or_else (info_nativeHeight info) (height d)) 0\<rparr>)"

definition deriveFormats :: "WebGLDevice \<Rightarrow> WebGLDevice" where
  "deriveFormats d =
     d\<lparr>colorFmt := RGBA8, depthStencilFmt := deriveDepthStencilFmt (depthBits d) (stencilBits d)\<rparr>"

text \<open>The supported-extension list and the twenty-four lookups that follow it.\<close>

definition probeExtensions :: "WebGLRenderingContext \<Rightarrow> WebGLDevice \<Rightarrow> WebGLDevice" where
  "probeExtensions gl d =
     d\<lparr>extensions := supportedExtensions gl,
       exts := (exts d)\<lparr>
         EXT_texture_filter_anisotropic := getExtension gl ''EXT_texture_filter_anisotropic'',
         EXT_frag_depth := getExtension gl ''EXT_frag_depth'',
         EXT_shader_texture_lod := getExtension gl ''EXT_shader_texture_lod'',
         EXT_sRGB := getExtension gl ''EXT_sRGB'',
         OES_vertex_array_object := getExtension gl ''OES_vertex_array_object'',
         EXT_color_buffer_half_float := getExtension gl ''EXT_color_buffer_half_float'',
         WEBGL_color_buffer_float := getExtension gl ''WEBGL_color_buffer_float'',
         WEBGL_compressed_texture_etc1 := getExtension gl ''WEBGL_compressed_texture_etc1'',
         WEBGL_compressed_texture_etc := getExtension gl ''WEBGL_compressed_texture_etc'',
         WEBGL_compressed_texture_pvrtc := getExtension gl ''WEBGL_compressed_texture_pvrtc'',
         WEBGL_compressed_texture_astc := getExtension gl ''WEBGL_compressed_texture_astc'',
         WEBGL_compressed_texture_s3tc := getExtension gl ''WEBGL_compressed_texture_s3tc'',
         WEBGL_compressed_texture_s3tc_srgb := getExtension gl ''WEBGL_compressed_texture_s3tc_srgb'',
         WEBGL_debug_shaders := getExtension gl ''WEBGL_debug_shaders'',
         WEBGL_draw_buffers := getExtension gl ''WEBGL_draw_buffers'',
         WEBGL_lose_context := getExtension gl ''WEBGL_lose_context'',
         WEBGL_depth_texture := getExtension gl ''WEBGL_depth_texture'',
         OES_texture_half_float := getExtension gl ''OES_texture_half_float'',
         OES_texture_half_float_linear := getExtension gl ''OES_texture_half_float_linear'',
         OES_texture_float := getExtension gl ''OES_texture_float'',
         OES_texture_float_linear := getExtension gl ''OES_texture_float_linear'',
         OES_standard_derivatives := getExtension gl ''OES_standard_derivatives'',
         OES_element_index_uint := getExtension gl ''OES_element_index_uint'',
         ANGLE_instanced_arrays := getExtension gl ''ANGLE_instanced_arrays''\<rparr>\<rparr>"

text \<open>
  The condition of the runtime rule: \<open>loadRuntime\<close> is no function, or returns a falsy
  value, or has no function \<open>getFeature\<close>, or the revision it reports is \<open>\<le> 0\<close>.
\<close>

definition oldRuntimeVAO :: "runtime_feature \<Rightarrow> bool" where
  "oldRuntimeVAO r =
     (case r of NoLoadRuntime \<Rightarrow> True | RuntimeFalsy \<Rightarrow> True | NoGetFeature \<Rightarrow> True
              | Revision n \<Rightarrow> n \<le> 0 | NotANumber \<Rightarrow> False)"

text \<open>The block "platform-specific hacks", one definition for each rule, in the order written.\<close>

text \<open>UC browser instancing implementation doesn't work.\<close>

definition quirkInstancing :: "platform \<Rightarrow> WebGLDevice \<Rightarrow> WebGLDevice" where
  "quirkInstancing p d =
     (if browserType p = BROWSER_TYPE_UC
      then d\<lparr>exts := (exts d)\<lparr>ANGLE_instanced_arrays := None\<rparr>\<rparr> else d)"

text \<open>Bytedance iOS depth texture implementation doesn't work.\<close>

definition quirkDepthTexture :: "platform \<Rightarrow> WebGLDevice \<Rightarrow> WebGLDevice" where
  "quirkDepthTexture p d =
     (if BYTEDANCE p \<and> os p = OS_IOS
      then d\<lparr>exts := (exts d)\<lparr>WEBGL_depth_texture := None\<rparr>\<rparr> else d)"

text \<open>Earlier runtime VAO implementations don't work.\<close>

definition quirkVAO :: "platform \<Rightarrow> WebGLDevice \<Rightarrow> WebGLDevice" where
  "quirkVAO p d =
     (if RUNTIME_BASED p \<and> \<not> VIVO p
      then (if oldRuntimeVAO (loadRuntime p)
            then d\<lparr>exts := (exts d)\<lparr>OES_vertex_array_object := None\<rparr>\<rparr> else d)
      else d)"

text \<open>Some earlier versions of iOS and Android WeChat implement \<open>gl.detachShader\<close> incorrectly.\<close>

definition quirkDestroyShaders :: "platform \<Rightarrow> WebGLDevice \<Rightarrow> WebGLDevice" where
  "quirkDestroyShaders p d =
     (if (os p = OS_IOS \<and> osMainVersion p \<le> 10) \<or> (WECHAT p \<and> os p = OS_ANDROID)
      then d\<lparr>destroyShadersImmediately := False\<rparr> else d)"

text \<open>\<open>compressedTexSubImage2D\<close> has always been problematic.\<close>

definition quirkCompressedTexSubImage :: "platform \<Rightarrow> WebGLDevice \<Rightarrow> WebGLDevice" where
  "quirkCompressedTexSubImage p d =
     (if WECHAT p then d\<lparr>noCompressedTexSubImage2D := True\<rparr> else d)"

definition applyQuirks :: "platform \<Rightarrow> WebGLDevice \<Rightarrow> WebGLDevice" where
  "applyQuirks p d =
     (let d = quirkInstancing p d;
          d = quirkDepthTexture p d;
          d = quirkVAO p d;
          d = quirkDestroyShaders p d;
          d = quirkCompressedTexSubImage p d
      in d)"

text \<open>One conditional assignment \<open>if (handle) { this._features[f] = true; }\<close>.\<close>

definition setFeatureIf :: "ext_handle option \<Rightarrow> GFXFeature \<Rightarrow> (GFXFeature \<Rightarrow> bool) \<Rightarrow> (GFXFeature \<Rightarrow> bool)" where
  "setFeatureIf h f fs = (if h \<noteq> None then fs(f := True) else fs)"

definition buildFeatures :: "WebGLDevice \<Rightarrow> WebGLDevice" where
  "buildFeatures d =
     (let e = exts d;
          fs = (\<lambda>f. False);
          fs = setFeatureIf (WEBGL_color_buffer_float e) COLOR_FLOAT fs;
          fs = setFeatureIf (EXT_color_buffer_half_float e) COLOR_HALF_FLOAT fs;
          fs = setFeatureIf (OES_texture_float e) TEXTURE_FLOAT fs;
          fs = setFeatureIf (OES_texture_half_float e) TEXTURE_HALF_FLOAT fs;
          fs = setFeatureIf (OES_texture_float_linear e) TEXTURE_FLOAT_LINEAR fs;
          fs = setFeatureIf (OES_texture_half_float_linear e) TEXTURE_HALF_FLOAT_LINEAR fs;
          fs = fs(FORMAT_RGB8 := True);
          fs = setFeatureIf (WEBGL_depth_texture e) FORMAT_D16 fs;
          fs = setFeatureIf (WEBGL_depth_texture e) FORMAT_D24 fs;
          fs = setFeatureIf (WEBGL_depth_texture e) FORMAT_D24S8 fs;
          fs = setFeatureIf (OES_element_index_uint e) ELEMENT_INDEX_UINT fs;
          fs = setFeatureIf (ANGLE_instanced_arrays e) INSTANCED_ARRAYS fs;
          fs = setFeatureIf (WEBGL_compressed_texture_etc1 e) FORMAT_ETC1 fs;
          fs = setFeatureIf (WEBGL_compressed_texture_etc e) FORMAT_ETC2 fs;
          fs = setFeatureIf (WEBGL_compressed_texture_s3tc e) FORMAT_DXT fs;
          fs = setFeatureIf (WEBGL_compressed_texture_pvrtc e) FORMAT_PVRTC fs;
          fs = setFeatureIf (WEBGL_compressed_texture_astc e) FORMAT_ASTC fs;
          d = d\<lparr>features := fs\<rparr>
      in (if OES_vertex_array_object e \<noteq> None then d\<lparr>useVAO := True\<rparr> else d))"

text \<open>\<open>initStates\<close>: the baseline state, as the sequence of native calls it makes.\<close>

definition initStates :: "WebGLRenderingContext \<Rightarrow> WebGLRenderingContext" where
  "initStates gl =
     (let gl = fold gl_state
                 [''activeTexture(TEXTURE0)'', ''pixelStorei(PACK_ALIGNMENT, 1)'',
                  ''pixelStorei(UNPACK_ALIGNMENT, 1)'', ''pixelStorei(UNPACK_FLIP_Y_WEBGL, 0)''] gl;
          gl = gl_bindFramebuffer None gl
      in fold gl_state
           [''disable(SCISSOR_TEST)'', ''enable(CULL_FACE)'', ''cullFace(BACK)'', ''frontFace(CCW)'',
            ''disable(POLYGON_OFFSET_FILL)'', ''polygonOffset(0, 0)'',
            ''enable(DEPTH_TEST)'', ''depthMask(true)'', ''depthFunc(LESS)'', ''depthRange(0, 1)'',
            ''stencilFuncSeparate(FRONT, ALWAYS, 1, 0xffff)'', ''stencilOpSeparate(FRONT, KEEP, KEEP, KEEP)'',
            ''stencilMaskSeparate(FRONT, 0xffff)'',
            ''stencilFuncSeparate(BACK, ALWAYS, 1, 0xffff)'', ''stencilOpSeparate(BACK, KEEP, KEEP, KEEP)'',
            ''stencilMaskSeparate(BACK, 0xffff)'', ''disable(STENCIL_TEST)'',
            ''disable(SAMPLE_ALPHA_TO_COVERAGE)'', ''disable(BLEND)'',
            ''blendEquationSeparate(FUNC_ADD, FUNC_ADD)'', ''blendFuncSeparate(ONE, ZERO, ONE, ZERO)'',
            ''colorMask(true, true, true, true)'', ''blendColor(0, 0, 0, 0)''] gl)"

subsection \<open>The resource factory\<close>

text \<open>
  Every factory method constructs an object of its backend class, passing the device to
  the constructor, and calls the object's initializer. A returned \<open>null\<close> is \<open>None\<close>.
\<close>

definition createCommandBuffer :: "'i backend \<Rightarrow> IGFXCommandBufferInfo \<Rightarrow> IGFXCommandBufferInfo backend_object option" where
  "createCommandBuffer be info =
     (let ctor = (if cmdbuf_type info = PRIMARY then WebGLPrimaryCommandBuffer_class else WebGLCommandBuffer_class);
          cmdBuff = new_object ctor;
          r = cmdbuf_initialize be info cmdBuff
      in Some (snd r))"

definition createBuffer :: "'i backend \<Rightarrow> 'i \<Rightarrow> 'i backend_object option" where
  "createBuffer be info =
     (let buffer = new_object WebGLBuffer_class; r = object_initialize be info buffer
      in if fst r then Some (snd r) else None)"

definition createTexture :: "'i backend \<Rightarrow> IGFXTextureInfo \<Rightarrow> WebGLTexture option" where
  "createTexture be info =
     (let texture = new_WebGLTexture; r = texture_initialize be info texture
      in if fst r then Some (snd r) else None)"

definition createSampler :: "'i backend \<Rightarrow> 'i \<Rightarrow> 'i backend_object option" where
  "createSampler be info =
     (let sampler = new_object WebGLSampler_class; r = object_initialize be info sampler
      in if fst r then Some (snd r) else None)"

definition createDescriptorSet :: "'i backend \<Rightarrow> 'i \<Rightarrow> 'i backend_object option" where
  "createDescriptorSet be info =
     (let descriptorSet = new_object WebGLDescriptorSet_class; r = object_initialize be info descriptorSet
      in if fst r then Some (snd r) else None)"

definition createShader :: "'i backend \<Rightarrow> 'i \<Rightarrow> 'i backend_object option" where
  "createShader be info =
     (let shader = new_object WebGLShader_class; r = object_initialize be info shader
      in if fst r then Some (snd r) else None)"

definition createInputAssembler :: "'i backend \<Rightarrow> 'i \<Rightarrow> 'i backend_object option" where
  "createInputAssembler be info =
     (let inputAssembler = new_object WebGLInputAssembler_class; r = object_initialize be info inputAssembler
      in if fst r then Some (snd r) else None)"

definition createRenderPass :: "'i backend \<Rightarrow> 'i \<Rightarrow> 'i backend_object option" where
  "createRenderPass be info =
     (let renderPass = new_object WebGLRenderPass_class; r = object_initialize be info renderPass
      in if fst r then Some (snd r) else None)"

definition createFramebuffer :: "'i backend \<Rightarrow> 'i \<Rightarrow> 'i backend_object option" where
  "createFramebuffer be info =
     (let framebuffer = new_object WebGLFramebuffer_class; r = object_initialize be info framebuffer
      in if fst r then Some (snd r) else None)"

definition createDescriptorSetLayout :: "'i backend \<Rightarrow> 'i \<Rightarrow> 'i backend_object option" where
  "createDescriptorSetLayout be info =
     (let descriptorSetLayout = new_object WebGLDescriptorSetLayout_class;
          r = object_initialize be info descriptorSetLayout
      in if fst r then Some (snd r) else None)"

definition createPipelineLayout :: "'i backend \<Rightarrow> 'i \<Rightarrow> 'i backend_object option" where
  "createPipelineLayout be info =
     (let pipelineLayout = new_object WebGLPipelineLayout_class; r = object_initialize be info pipelineLayout
      in if fst r then Some (snd r) else None)"

definition createPipelineState :: "'i backend \<Rightarrow> 'i \<Rightarrow> 'i backend_object option" where
  "createPipelineState be info =
     (let pipelineState = new_object WebGLPipelineState_class; r = object_initialize be info pipelineState
      in if fst r then Some (snd r) else None)"

definition createFence :: "'i backend \<Rightarrow> 'i \<Rightarrow> 'i backend_object option" where
  "createFence be info =
     (let fence = new_object WebGLFence_class; r = object_initialize be info fence
      in if fst r then Some (snd r) else None)"

definition createQueue :: "'i backend \<Rightarrow> IGFXQueueInfo \<Rightarrow> WebGLQueue option" where
  "createQueue be info =
     (let queue = new_WebGLQueue; r = queue_initialize be info queue
      in if fst r then Some (snd r) else None)"

subsection \<open>Data transfer\<close>

text \<open>
  \<open>copyBuffersToTexture\<close> hands its arguments to \<open>WebGLCmdFuncCopyBuffersToTexture\<close>;
  the upload is recorded among the native calls of the context.
\<close>

definition copyBuffersToTexture :: "WebGLDevice \<Rightarrow> nat list list \<Rightarrow> WebGLTexture \<Rightarrow> GFXBufferTextureCopy list \<Rightarrow> WebGLDevice" where
  "copyBuffersToTexture d buffers texture regions =
     d\<lparr>webGLRC := map_option
          (\<lambda>gl. gl\<lparr>calls := calls gl @ [CmdFuncCopyBuffersToTexture buffers texture regions]\<rparr>)
          (webGLRC d)\<rparr>"

text \<open>
  The two statements \<open>gl.bindFramebuffer(gl.FRAMEBUFFER, fbo); this.stateCache.glFramebuffer = fbo\<close>.
  A call on a context that is \<open>null\<close> throws.
\<close>

definition bindFramebufferCached :: "gl_framebuffer option \<Rightarrow> WebGLDevice \<Rightarrow> js_error + WebGLDevice" where
  "bindFramebufferCached fbo d =
     (case webGLRC d of
        None \<Rightarrow> Inl TypeError
      | Some gl \<Rightarrow> Inr (d\<lparr>webGLRC := Some (gl_bindFramebuffer fbo gl),
                           stateCache := (stateCache d)\<lparr>cache_glFramebuffer := fbo\<rparr>\<rparr>))"

text \<open>The loop over the regions: one \<open>gl.readPixels\<close> for each, in list order.\<close>

fun readRegions :: "GFXBufferTextureCopy list \<Rightarrow> WebGLDevice \<Rightarrow> js_error + WebGLDevice" where
  "readRegions [] d = Inr d"
| "readRegions (region # regions) d =
     (let w = ext_width (texExtent region); h = ext_height (texExtent region)
      in case webGLRC d of
           None \<Rightarrow> Inl TypeError
         | Some gl \<Rightarrow>
             readRegions regions
               (d\<lparr>webGLRC := Some (gl_readPixels (off_x (texOffset region)) (off_y (texOffset region)) w h gl)\<rparr>))"

text \<open>
  \<open>copyFramebufferToBuffer\<close>. The parameter \<open>bytesPerElement\<close> stands for
  \<open>getTypedArrayConstructor(GFXFormatInfos[format])\<close> of define.ts: the element size of the
  typed array chosen for a format. Building a typed array over a buffer whose byte length
  is no multiple of the element size throws a RangeError; reading element 0 of an empty
  list of colour textures gives \<open>undefined\<close>, whose \<open>format\<close> throws a TypeError. The pixel
  data written to the destination buffer is not modelled.
\<close>

definition copyFramebufferToBuffer ::
  "(GFXFormat \<Rightarrow> nat) \<Rightarrow> WebGLDevice \<Rightarrow> WebGLFramebuffer \<Rightarrow> nat list \<Rightarrow> GFXBufferTextureCopy list \<Rightarrow> js_error + WebGLDevice" where
  "copyFramebufferToBuffer bytesPerElement d srcFramebuffer dstBuffer regions =
     (let gpuFb = gpuFramebuffer srcFramebuffer
      in case gpuColorTextures gpuFb of
           [] \<Rightarrow> Inl TypeError
         | tex0 # _ \<Rightarrow>
             (let fmt = gpu_format tex0;
                  curFBO = cache_glFramebuffer (stateCache d)
              in case (if cache_glFramebuffer (stateCache d) \<noteq> glFramebuffer gpuFb
                       then bindFramebufferCached (glFramebuffer gpuFb) d else Inr d) of
                   Inl e \<Rightarrow> Inl e
                 | Inr d1 \<Rightarrow>
                     if length dstBuffer mod bytesPerElement fmt \<noteq> 0 then Inl RangeError
                     else (case readRegions regions d1 of
                             Inl e \<Rightarrow> Inl e
                           | Inr d2 \<Rightarrow>
                               if cache_glFramebuffer (stateCache d2) \<noteq> curFBO
                               then bindFramebufferCached curFBO d2 else Inr d2)))"

text \<open>\<open>blitFramebuffer\<close> has an empty body.\<close>

definition blitFramebuffer ::
  "WebGLDevice \<Rightarrow> WebGLFramebuffer \<Rightarrow> WebGLFramebuffer \<Rightarrow> GFXRect \<Rightarrow> GFXRect \<Rightarrow> GFXFilter \<Rightarrow> WebGLDevice" where
  "blitFramebuffer d src dst srcRect dstRect flt = d"

subsection \<open>initialize and destroy\<close>

text \<open>The configurations of the two default textures, and the copy region, as written in \<open>initialize\<close>.\<close>

definition nullTex2DInfo :: IGFXTextureInfo where
  "nullTex2DInfo = \<lparr>tex_type = TEX2D, usage = SAMPLED, format = RGBA8, tex_width = 2, tex_height = 2,
     tex_layerCount = None, flags = {GEN_MIPMAP}\<rparr>"

definition nullTexCubeInfo :: IGFXTextureInfo where
  "nullTexCubeInfo = \<lparr>tex_type = TEX2D, usage = SAMPLED, format = RGBA8, tex_width = 2, tex_height = 2,
     tex_layerCount = Some 6, flags = {CUBEMAP, GEN_MIPMAP}\<rparr>"

definition nullTexRegion :: GFXBufferTextureCopy where
  "nullTexRegion = \<lparr>buffStride = 0, buffTexHeight = 0,
     texOffset = \<lparr>off_x = 0, off_y = 0, off_z = 0\<rparr>,
     texExtent = \<lparr>ext_width = 2, ext_height = 2, ext_depth = 1\<rparr>,
     texSubres = \<lparr>mipLevel = 0, baseArrayLayer = 0, layerCount = 1\<rparr>\<rparr>"

text \<open>
  The two default textures and the zero-filled uploads into them. The results of the two
  calls of \<open>initialize\<close> on the textures are not read.
\<close>

definition createNullTextures :: "'i backend \<Rightarrow> WebGLDevice \<Rightarrow> WebGLDevice" where
  "createNullTextures be d =
     (let tex2D = snd (texture_initialize be nullTex2DInfo new_WebGLTexture);
          d = d\<lparr>nullTex2D := Some tex2D\<rparr>;
          texCube = snd (texture_initialize be nullTexCubeInfo new_WebGLTexture);
          d = d\<lparr>nullTexCube := Some texCube\<rparr>;
          region = nullTexRegion;
          nullTexBuff = replicate (tex_size tex2D) 0;
          d = copyBuffersToTexture d [nullTexBuff] tex2D [region];
          region = region\<lparr>texSubres := (texSubres region)\<lparr>layerCount := 6\<rparr>\<rparr>
      in copyBuffersToTexture d
           [nullTexBuff, nullTexBuff, nullTexBuff, nullTexBuff, nullTexBuff, nullTexBuff]
           texCube [region])"

text \<open>
  \<open>initialize\<close> returns its boolean result and the device as it leaves it. The call of
  \<open>getContext\<close> is inside \<open>try\<close>: when it throws, \<open>_webGLRC\<close> is not assigned.
\<close>

definition initialize :: "platform \<Rightarrow> 'i backend \<Rightarrow> IGFXDeviceInfo \<Rightarrow> WebGLDevice \<Rightarrow> bool \<times> WebGLDevice" where
  "initialize p be info d =
     (let d = configure info d
      in case getContext (canvasElm info) (webGLCtxAttribs p d) of
           Throws \<Rightarrow> (False, d)
         | ReturnsNull \<Rightarrow> (False, d\<lparr>webGLRC := None\<rparr>)
         | Returns gl \<Rightarrow>
             (let d = d\<lparr>webGLRC := Some gl\<rparr>;
                  d = queryIdentity gl d;
                  d = overrideDepthBits p d;
                  d = readSizes info d;
                  d = deriveFormats d;
                  d = probeExtensions gl d;
                  d = applyQuirks p d;
                  d = buildFeatures d;
                  d = d\<lparr>webGLRC := Some (initStates gl)\<rparr>;
                  d = d\<lparr>queue := createQueue be \<lparr>queue_info_type = GRAPHICS\<rparr>\<rparr>;
                  d = createNullTextures be d
              in (True, d)))"

datatype destroy_call = TextureDestroy WebGLTexture | QueueDestroy WebGLQueue

text \<open>\<open>destroy\<close> returns the \<open>destroy()\<close> calls it made on owned objects, and the device.\<close>

definition destroy :: "WebGLDevice \<Rightarrow> destroy_call list \<times> WebGLDevice" where
  "destroy d =
     (let c1 = (case nullTex2D d of Some t \<Rightarrow> [TextureDestroy t] | None \<Rightarrow> []);
          d = d\<lparr>nullTex2D := None\<rparr>;
          c2 = (case nullTexCube d of Some t \<Rightarrow> [TextureDestroy t] | None \<Rightarrow> []);
          d = d\<lparr>nullTexCube := None\<rparr>;
          c3 = (case queue d of Some q \<Rightarrow> [QueueDestroy q] | None \<Rightarrow> []);
          d = d\<lparr>queue := None\<rparr>
      in (c1 @ c2 @ c3, d\<lparr>extensions := None, webGLRC := None\<rparr>))"

subsection \<open>resize and present\<close>

text \<open>
  The attributes \<open>width\<close> and \<open>height\<close> of an \<open>HTMLCanvasElement\<close> are of type
  \<open>unsigned long\<close>. An assignment converts the number to an unsigned 32-bit integer
  (the value modulo \<open>2^32\<close>) and stores it when it is at most \<open>2147483647\<close>; otherwise the
  attribute takes its default, 300 for the width and 150 for the height. So a negative
  argument leaves the default in the canvas. Numbers that are not integers are outside the
  model.
\<close>

definition reflect_unsigned_long :: "int \<Rightarrow> int \<Rightarrow> int" where
  "reflect_unsigned_long dflt v =
     (let u = v mod 4294967296 in if u \<le> 2147483647 then u else dflt)"

definition set_canvas_width :: "int \<Rightarrow> HTMLCanvasElement \<Rightarrow> HTMLCanvasElement" where
  "set_canvas_width w c = c\<lparr>canvas_width := reflect_unsigned_long 300 w\<rparr>"

definition set_canvas_height :: "int \<Rightarrow> HTMLCanvasElement \<Rightarrow> HTMLCanvasElement" where
  "set_canvas_height h c = c\<lparr>canvas_height := reflect_unsigned_long 150 h\<rparr>"

text \<open>
  \<open>this._canvas!.width = width\<close> throws when the device has no canvas. The message written
  to the console is not part of the device.
\<close>

definition resize :: "WebGLDevice \<Rightarrow> int \<Rightarrow> int \<Rightarrow> js_error + WebGLDevice" where
  "resize d w h =
     (if width d \<noteq> w \<or> height d \<noteq> h then
        (case canvas d of
           None \<Rightarrow> Inl TypeError
         | Some c \<Rightarrow> Inr (d\<lparr>canvas := Some (set_canvas_height h (set_canvas_width w c)),
                             width := w, height := h\<rparr>))
      else Inr d)"

text \<open>\<open>present\<close> reads the counters of the default queue; a queue that is \<open>null\<close> throws.\<close>

definition present :: "WebGLDevice \<Rightarrow> js_error + WebGLDevice" where
  "present d =
     (case queue d of
        None \<Rightarrow> Inl TypeError
      | Some q \<Rightarrow> Inr (d\<lparr>numDrawCalls := queue_numDrawCalls q,
                          numInstances := queue_numInstances q,
                          numTris := queue_numTris q,
                          queue := Some (queue_clear q)\<rparr>))"

subsection \<open>Concrete inputs\<close>

text \<open>
  A desktop browser build, a context with 24 depth bits and 8 stencil bits whose
  extension table is a parameter, a canvas whose \<open>getContext\<close> answers with a given
  result, and two backends: one whose initializers all succeed, one whose queue and
  command-buffer initializers report failure.
\<close>

definition desktop_platform :: platform where
  "desktop_platform = \<lparr>ALIPAY = False, RUNTIME_BASED = False, BYTEDANCE = False, WECHAT = False,
     VIVO = False, ENABLE_TRANSPARENT_CANVAS = False, browserType = BROWSER_TYPE_CHROME,
     os = OS_WINDOWS, osMainVersion = 10, loadRuntime = NoLoadRuntime\<rparr>"

definition context_with :: "(string \<Rightarrow> ext_handle option) \<Rightarrow> WebGLRenderingContext" where
  "context_with table = \<lparr>extensionTable = table, supportedExtensions = None,
     RENDERER = ''WebKit WebGL'', VENDOR = ''WebKit'',
     UNMASKED_RENDERER_WEBGL = ''GPU'', UNMASKED_VENDOR_WEBGL = ''Vendor'',
     VERSION = ''WebGL 1.0'',
     MAX_VERTEX_ATTRIBS = 16, MAX_VERTEX_UNIFORM_VECTORS = 256, MAX_FRAGMENT_UNIFORM_VECTORS = 256,
     MAX_TEXTURE_IMAGE_UNITS = 16, MAX_VERTEX_TEXTURE_IMAGE_UNITS = 16,
     MAX_TEXTURE_SIZE = 4096, MAX_CUBE_MAP_TEXTURE_SIZE = 4096,
     DEPTH_BITS = 24, STENCIL_BITS = 8, FRAMEBUFFER_BINDING = None, calls = []\<rparr>"

definition linear_only_table :: "string \<Rightarrow> ext_handle option" where
  "linear_only_table name = (if name = ''OES_texture_float_linear'' then Some 1 else None)"

definition float_table :: "string \<Rightarrow> ext_handle option" where
  "float_table name =
     (if name = ''OES_texture_float'' then Some 1
      else if name = ''OES_texture_float_linear'' then Some 2
      else if name = ''WEBKIT_OES_texture_float'' then Some 3
      else None)"

definition canvas_giving :: "getContext_result \<Rightarrow> HTMLCanvasElement" where
  "canvas_giving r = \<lparr>canvas_width = 960, canvas_height = 640, getContext = (\<lambda>attribs. r)\<rparr>"

definition info_giving :: "getContext_result \<Rightarrow> IGFXDeviceInfo" where
  "info_giving r = \<lparr>canvasElm = canvas_giving r, info_isAntialias = None,
     info_isPremultipliedAlpha = None, info_nativeWidth = None, info_nativeHeight = None,
     info_bindingMappingInfo = None\<rparr>"

definition working_backend :: "unit backend" where
  "working_backend = \<lparr>
     texture_initialize = (\<lambda>info t. (True, t\<lparr>tex_info := Some info, tex_size := 16\<rparr>)),
     queue_initialize = (\<lambda>info q. (True, q\<lparr>queue_type := Some (queue_info_type info)\<rparr>)),
     cmdbuf_initialize = (\<lambda>info b. (True, b\<lparr>obj_info := Some info\<rparr>)),
     object_initialize = (\<lambda>info b. (True, b\<lparr>obj_info := Some info\<rparr>))\<rparr>"

definition failing_backend :: "unit backend" where
  "failing_backend = \<lparr>
     texture_initialize = (\<lambda>info t. (True, t\<lparr>tex_info := Some info, tex_size := 16\<rparr>)),
     queue_initialize = (\<lambda>info q. (False, q)),
     cmdbuf_initialize = (\<lambda>info b. (False, b)),
     object_initialize = (\<lambda>info b. (False, b))\<rparr>"

text \<open>
  A device that owns a context, a canvas and a default queue with counters accumulated
  since the last present; a framebuffer with one colour texture; typed arrays of one byte
  per element.
\<close>

definition busy_queue :: WebGLQueue where
  "busy_queue = \<lparr>queue_type = Some GRAPHICS, queue_numDrawCalls = 3, queue_numInstances = 5,
     queue_numTris = 12\<rparr>"

definition running_device :: WebGLDevice where
  "running_device = new_WebGLDevice\<lparr>
     webGLRC := Some (context_with float_table),
     canvas := Some (canvas_giving ReturnsNull),
     width := 960, height := 640,
     queue := Some busy_queue\<rparr>"

definition offscreen_framebuffer :: WebGLFramebuffer where
  "offscreen_framebuffer =
     \<lparr>gpuFramebuffer = \<lparr>gpuColorTextures = [\<lparr>gpu_format = RGBA8\<rparr>], glFramebuffer = Some 7\<rparr>\<rparr>"

definition default_framebuffer :: WebGLFramebuffer where
  "default_framebuffer =
     \<lparr>gpuFramebuffer = \<lparr>gpuColorTextures = [\<lparr>gpu_format = RGBA8\<rparr>], glFramebuffer = None\<rparr>\<rparr>"

definition byte_arrays :: "GFXFormat \<Rightarrow> nat" where
  "byte_arrays fmt = 1"

text \<open>The framebuffer bound in the native context of the device, when the device has a context.\<close>

definition nativeBinding :: "WebGLDevice \<Rightarrow> gl_framebuffer option option" where
  "nativeBinding d = map_option FRAMEBUFFER_BINDING (webGLRC d)"

section \<open>Properties\<close>

subsection \<open>The extension lookup\<close>

lemma getExtension_cases:
  "getExtension gl ext =
     (case extensionTable gl ext of
        Some h \<Rightarrow> Some h
      | None \<Rightarrow> (case extensionTable gl (''WEBKIT_'' @ ext) of
                    Some h \<Rightarrow> Some h
                  | None \<Rightarrow> extensionTable gl (''MOZ_'' @ ext)))"
  by (simp add: getExtension_def prefixes_def split: option.splits)

lemma getExtension_float_table:
  "getExtension (context_with float_table) ''OES_texture_float_linear'' = Some 2"
  "getExtension (context_with float_table) ''OES_texture_float'' = Some 1"
  by (simp_all add: getExtension_cases context_with_def float_table_def)

lemma getExtension_linear_only:
  "getExtension (context_with linear_only_table) ''OES_texture_float_linear'' = Some 1"
  "getExtension (context_with linear_only_table) ''OES_texture_float'' = None"
  by (simp_all add: getExtension_cases context_with_def linear_only_table_def)

text \<open>
  C5. For every extension name, \<open>getExtension\<close> asks the context for the unprefixed name
  first, then for the name under \<open>WEBKIT_\<close>, then under \<open>MOZ_\<close>, stops at the first handle
  that is not null and returns it. A name that resolves unprefixed gives the unprefixed
  handle whatever the prefixed aliases resolve to, and a name of which no alias resolves
  gives null.
\<close>

theorem getExtension_first_match:
  "getExtension_loop gl prefixes ext =
     (case extensionTable gl ext of
        Some h \<Rightarrow> ([ext], Some h)
      | None \<Rightarrow>
          (case extensionTable gl (''WEBKIT_'' @ ext) of
             Some h \<Rightarrow> ([ext, ''WEBKIT_'' @ ext], Some h)
           | None \<Rightarrow>
               (case extensionTable gl (''MOZ_'' @ ext) of
                  Some h \<Rightarrow> ([ext, ''WEBKIT_'' @ ext, ''MOZ_'' @ ext], Some h)
                | None \<Rightarrow> ([ext, ''WEBKIT_'' @ ext, ''MOZ_'' @ ext], None))))
   \<and> (\<forall>h. extensionTable gl ext = Some h \<longrightarrow> getExtension gl ext = Some h)
   \<and> (extensionTable gl ext = None \<and> extensionTable gl (''WEBKIT_'' @ ext) = None
        \<and> extensionTable gl (''MOZ_'' @ ext) = None \<longrightarrow> getExtension gl ext = None)"
  by (simp add: getExtension_def prefixes_def split: option.splits)

theorem getExtension_first_match_witness:
  "extensionTable (context_with float_table) ''OES_texture_float'' = Some 1
   \<and> extensionTable (context_with float_table) ''WEBKIT_OES_texture_float'' = Some 3
   \<and> getExtension (context_with float_table) ''OES_texture_float'' = Some 1
   \<and> getExtension_loop (context_with float_table) prefixes ''OES_texture_float''
        = ([''OES_texture_float''], Some 1)
   \<and> extensionTable (context_with float_table) ''EXT_sRGB'' = None
   \<and> extensionTable (context_with float_table) ''WEBKIT_EXT_sRGB'' = None
   \<and> extensionTable (context_with float_table) ''MOZ_EXT_sRGB'' = None
   \<and> getExtension (context_with float_table) ''EXT_sRGB'' = None"
  using getExtension_first_match [of "context_with float_table" "''OES_texture_float''"]
    getExtension_first_match [of "context_with float_table" "''EXT_sRGB''"]
  by (simp add: context_with_def float_table_def)

subsection \<open>The platform rules\<close>

text \<open>
  C8. For every platform identity, applying the block of platform rules to a device that
  it has already been applied to changes nothing: the handles and the behavioural flags
  after two applications are those after one. The same holds for the depth-bit override
  of the Alipay runtime, which \<open>initialize\<close> applies ahead of the block.
\<close>

theorem applyQuirks_idempotent:
  "applyQuirks p (applyQuirks p d) = applyQuirks p d
   \<and> overrideDepthBits p (overrideDepthBits p d) = overrideDepthBits p d"
proof
  show "applyQuirks p (applyQuirks p d) = applyQuirks p d"
    unfolding applyQuirks_def Let_def
    by (cases "browserType p = BROWSER_TYPE_UC"; cases "BYTEDANCE p \<and> os p = OS_IOS";
        cases "RUNTIME_BASED p \<and> \<not> VIVO p"; cases "oldRuntimeVAO (loadRuntime p)";
        cases "(os p = OS_IOS \<and> osMainVersion p \<le> 10) \<or> (WECHAT p \<and> os p = OS_ANDROID)";
        cases "WECHAT p";
        simp only: quirkInstancing_def quirkDepthTexture_def quirkVAO_def quirkDestroyShaders_def
          quirkCompressedTexSubImage_def if_True if_False;
        simp split del: if_split)
  show "overrideDepthBits p (overrideDepthBits p d) = overrideDepthBits p d"
    by (cases "ALIPAY p") (simp_all add: overrideDepthBits_def)
qed

subsection \<open>resize, present and blitFramebuffer\<close>

lemma reflect_unsigned_long_in_range:
  "0 \<le> v \<Longrightarrow> v \<le> 2147483647 \<Longrightarrow> reflect_unsigned_long dflt v = v"
  by (simp add: reflect_unsigned_long_def Let_def)

lemma reflect_unsigned_long_negative:
  "reflect_unsigned_long 300 (- 1) = 300" "reflect_unsigned_long 150 (- 5) = 150"
  by (simp_all add: reflect_unsigned_long_def Let_def)

lemma set_canvas_size:
  "canvas_width (set_canvas_height h (set_canvas_width w c)) = reflect_unsigned_long 300 w"
  "canvas_height (set_canvas_height h (set_canvas_width w c)) = reflect_unsigned_long 150 h"
  "getContext (set_canvas_height h (set_canvas_width w c)) = getContext c"
  by (simp_all add: set_canvas_width_def set_canvas_height_def)

lemma resize_same: "width d = w \<Longrightarrow> height d = h \<Longrightarrow> resize d w h = Inr d"
  by (simp add: resize_def)

lemma resize_other:
  "canvas d = Some c \<Longrightarrow> width d \<noteq> w \<or> height d \<noteq> h \<Longrightarrow>
     resize d w h = Inr (d\<lparr>canvas := Some (set_canvas_height h (set_canvas_width w c)),
                            width := w, height := h\<rparr>)"
  by (simp only: resize_def if_True option.case)

lemma resize_no_canvas:
  "canvas d = None \<Longrightarrow> width d \<noteq> w \<or> height d \<noteq> h \<Longrightarrow> resize d w h = Inl TypeError"
  by (simp only: resize_def if_True option.case)

text \<open>
  A negative size: the cached width and height take the arguments, the canvas falls back
  to 300 by 150.
\<close>

lemma resize_negative_size:
  "\<exists>d' c'. resize running_device (- 1) (- 5) = Inr d' \<and> width d' = - 1 \<and> height d' = - 5
     \<and> canvas d' = Some c' \<and> canvas_width c' = 300 \<and> canvas_height c' = 150"
proof -
  have c: "canvas running_device = Some (canvas_giving ReturnsNull)"
    and w: "width running_device = 960"
    by (simp_all add: running_device_def)
  have ne: "width running_device \<noteq> - 1 \<or> height running_device \<noteq> - 5"
    by (simp add: w)
  let ?c' = "set_canvas_height (- 5) (set_canvas_width (- 1) (canvas_giving ReturnsNull))"
  let ?d' = "running_device\<lparr>canvas := Some ?c', width := - 1, height := - 5\<rparr>"
  have "resize running_device (- 1) (- 5) = Inr ?d'"
    by (rule resize_other [OF c ne])
  moreover have "width ?d' = - 1" "height ?d' = - 5" "canvas ?d' = Some ?c'"
    by simp_all
  moreover have "canvas_width ?c' = 300" "canvas_height ?c' = 150"
    by (simp_all only: set_canvas_size reflect_unsigned_long_negative)
  ultimately show ?thesis by blast
qed

text \<open>
  C9. \<open>resize\<close> with the cached width and height returns the device as it was. On a
  device that owns a canvas, \<open>resize\<close> with other values assigns the arguments to the
  canvas's width and height, sets the cached width and height to the arguments and
  changes no other field of the device: context, queue, default textures and state cache
  are the same objects as before. For arguments in the range of a canvas size (from 0 to
  2147483647) the pixel dimensions of the canvas are then the arguments. A second call
  with the same arguments changes nothing.
\<close>

theorem resize_updates_dimensions_only:
  "(width d = w \<and> height d = h \<longrightarrow> resize d w h = Inr d)
   \<and> (\<forall>c. canvas d = Some c \<and> (width d \<noteq> w \<or> height d \<noteq> h) \<longrightarrow>
        resize d w h = Inr (d\<lparr>canvas := Some (set_canvas_height h (set_canvas_width w c)),
                               width := w, height := h\<rparr>)
        \<and> (0 \<le> w \<and> w \<le> 2147483647 \<and> 0 \<le> h \<and> h \<le> 2147483647 \<longrightarrow>
             canvas_width (set_canvas_height h (set_canvas_width w c)) = w
             \<and> canvas_height (set_canvas_height h (set_canvas_width w c)) = h))
   \<and> (\<forall>d'. resize d w h = Inr d' \<longrightarrow>
        resize d' w h = Inr d' \<and> width d' = w \<and> height d' = h
        \<and> webGLRC d' = webGLRC d \<and> queue d' = queue d \<and> nullTex2D d' = nullTex2D d
        \<and> nullTexCube d' = nullTexCube d \<and> stateCache d' = stateCache d)"
proof (intro conjI allI impI)
  assume "width d = w \<and> height d = h"
  then show "resize d w h = Inr d" by (simp add: resize_same)
next
  fix c assume "canvas d = Some c \<and> (width d \<noteq> w \<or> height d \<noteq> h)"
  then show "resize d w h = Inr (d\<lparr>canvas := Some (set_canvas_height h (set_canvas_width w c)),
                               width := w, height := h\<rparr>)"
    using resize_other [of d c w h] by blast
next
  fix c assume "0 \<le> w \<and> w \<le> 2147483647 \<and> 0 \<le> h \<and> h \<le> 2147483647"
  then show "canvas_width (set_canvas_height h (set_canvas_width w c)) = w"
    and "canvas_height (set_canvas_height h (set_canvas_width w c)) = h"
    by (simp_all add: set_canvas_size reflect_unsigned_long_in_range)
next
  fix d' assume run: "resize d w h = Inr d'"
  have "resize d' w h = Inr d' \<and> width d' = w \<and> height d' = h
        \<and> webGLRC d' = webGLRC d \<and> queue d' = queue d \<and> nullTex2D d' = nullTex2D d
        \<and> nullTexCube d' = nullTexCube d \<and> stateCache d' = stateCache d"
  proof (cases "width d \<noteq> w \<or> height d \<noteq> h")
    case False
    then have same: "width d = w" "height d = h" by simp_all
    with run have "d' = d" by (simp add: resize_same)
    with same show ?thesis by (simp add: resize_same)
  next
    case True
    show ?thesis
    proof (cases "canvas d")
      case None
      from resize_no_canvas [OF None True] run show ?thesis by simp
    next
      case (Some c)
      from resize_other [OF Some True] run
      have d': "d' = d\<lparr>canvas := Some (set_canvas_height h (set_canvas_width w c)),
                               width := w, height := h\<rparr>" by simp
      have wh: "width d' = w" "height d' = h" by (simp_all add: d')
      have keep: "webGLRC d' = webGLRC d" "queue d' = queue d" "nullTex2D d' = nullTex2D d"
        "nullTexCube d' = nullTexCube d" "stateCache d' = stateCache d"
        by (simp_all add: d')
      from resize_same [OF wh] wh keep show ?thesis by simp
    qed
  qed
  then show "resize d' w h = Inr d'" and "width d' = w" and "height d' = h"
    and "webGLRC d' = webGLRC d" and "queue d' = queue d" and "nullTex2D d' = nullTex2D d"
    and "nullTexCube d' = nullTexCube d" and "stateCache d' = stateCache d"
    by simp_all
qed

theorem resize_updates_dimensions_only_witness:
  "canvas running_device = Some (canvas_giving ReturnsNull)
   \<and> width running_device = 960 \<and> height running_device = 640
   \<and> resize running_device 960 640 = Inr running_device
   \<and> resize running_device 1280 720 =
        Inr (running_device\<lparr>canvas := Some (set_canvas_height 720 (set_canvas_width 1280 (canvas_giving ReturnsNull))),
                            width := 1280, height := 720\<rparr>)
   \<and> canvas_width (set_canvas_height 720 (set_canvas_width 1280 (canvas_giving ReturnsNull))) = 1280
   \<and> canvas_height (set_canvas_height 720 (set_canvas_width 1280 (canvas_giving ReturnsNull))) = 720
   \<and> resize (running_device\<lparr>canvas := Some (set_canvas_height 720 (set_canvas_width 1280 (canvas_giving ReturnsNull))),
                            width := 1280, height := 720\<rparr>) 1280 720
       = Inr (running_device\<lparr>canvas := Some (set_canvas_height 720 (set_canvas_width 1280 (canvas_giving ReturnsNull))),
                            width := 1280, height := 720\<rparr>)"
proof -
  let ?c' = "set_canvas_height 720 (set_canvas_width 1280 (canvas_giving ReturnsNull))"
  let ?d' = "running_device\<lparr>canvas := Some ?c', width := 1280, height := 720\<rparr>"
  have c: "canvas running_device = Some (canvas_giving ReturnsNull)"
    and w: "width running_device = 960" and h: "height running_device = 640"
    by (simp_all add: running_device_def)
  have ne: "width running_device \<noteq> 1280 \<or> height running_device \<noteq> 720"
    by (simp add: w)
  have range: "(0::int) \<le> 1280 \<and> (1280::int) \<le> 2147483647 \<and> (0::int) \<le> 720 \<and> (720::int) \<le> 2147483647"
    by simp
  from resize_updates_dimensions_only [of running_device 960 640] w h
  have same: "resize running_device 960 640 = Inr running_device" by blast
  from resize_updates_dimensions_only [of running_device 1280 720] c ne
  have other: "resize running_device 1280 720 = Inr ?d'"
    and size_if: "(0::int) \<le> 1280 \<and> (1280::int) \<le> 2147483647 \<and> (0::int) \<le> 720 \<and> (720::int) \<le> 2147483647
       \<longrightarrow> canvas_width ?c' = 1280 \<and> canvas_height ?c' = 720"
    by blast+
  from size_if range have size: "canvas_width ?c' = 1280" "canvas_height ?c' = 720"
    by blast+
  from resize_updates_dimensions_only [of running_device 1280 720] other
  have again: "resize ?d' 1280 720 = Inr ?d'"
    by blast
  from c w h same other size again show ?thesis by blast
qed

text \<open>
  C7. On a device with a default queue, \<open>present\<close> copies the queue's draw-call, instance
  and triangle counters into the device's counters and clears the counters of the queue,
  so that the device's counters read after \<open>present\<close> are the ones the queue had
  accumulated; a second \<open>present\<close> with no draw in between leaves all three device
  counters at zero.
\<close>

theorem present_reads_and_clears:
  assumes "queue d = Some q"
  shows "\<exists>d1 q1 d2. present d = Inr d1
     \<and> numDrawCalls d1 = queue_numDrawCalls q \<and> numInstances d1 = queue_numInstances q
     \<and> numTris d1 = queue_numTris q
     \<and> queue d1 = Some q1
     \<and> queue_numDrawCalls q1 = 0 \<and> queue_numInstances q1 = 0 \<and> queue_numTris q1 = 0
     \<and> present d1 = Inr d2
     \<and> numDrawCalls d2 = 0 \<and> numInstances d2 = 0 \<and> numTris d2 = 0"
  using assms by (simp add: present_def queue_clear_def)

theorem present_reads_and_clears_witness:
  "queue running_device = Some busy_queue
   \<and> (\<exists>d1 d2. present running_device = Inr d1
        \<and> numDrawCalls d1 = 3 \<and> numInstances d1 = 5 \<and> numTris d1 = 12
        \<and> present d1 = Inr d2
        \<and> numDrawCalls d2 = 0 \<and> numInstances d2 = 0 \<and> numTris d2 = 0)"
proof -
  have q: "queue running_device = Some busy_queue"
    by (simp add: running_device_def)
  from present_reads_and_clears [OF q] q show ?thesis
    by (auto simp: busy_queue_def)
qed

text \<open>
  C10. \<open>blitFramebuffer\<close> does nothing: for every source and destination framebuffer,
  every pair of rectangles and every filter it returns the device unchanged, so no native
  call is added to the context and no field of the device or of its state cache changes.
\<close>

theorem blitFramebuffer_no_effect:
  "blitFramebuffer d src dst srcRect dstRect flt = d
   \<and> webGLRC (blitFramebuffer d src dst srcRect dstRect flt) = webGLRC d
   \<and> stateCache (blitFramebuffer d src dst srcRect dstRect flt) = stateCache d"
  by (simp add: blitFramebuffer_def)

subsection \<open>copyFramebufferToBuffer\<close>

lemma readRegions_keeps:
  "readRegions regions d = Inr d' \<Longrightarrow>
     stateCache d' = stateCache d \<and> nativeBinding d' = nativeBinding d"
proof (induction regions arbitrary: d)
  case Nil
  then show ?case by simp
next
  case (Cons region regions)
  from Cons.prems obtain gl where gl: "webGLRC d = Some gl"
    by (cases "webGLRC d") (simp_all add: Let_def)
  let ?d1 = "d\<lparr>webGLRC := Some (gl_readPixels (off_x (texOffset region)) (off_y (texOffset region))
               (ext_width (texExtent region)) (ext_height (texExtent region)) gl)\<rparr>"
  from Cons.prems gl have "readRegions regions ?d1 = Inr d'"
    by (simp add: Let_def)
  from Cons.IH [OF this] gl show ?case
    by (simp add: gl_readPixels_def nativeBinding_def)
qed

lemma readRegions_total:
  "webGLRC d \<noteq> None \<Longrightarrow> \<exists>d'. readRegions regions d = Inr d'"
proof (induction regions arbitrary: d)
  case Nil
  then show ?case by simp
next
  case (Cons region regions)
  then obtain gl where gl: "webGLRC d = Some gl" by auto
  let ?d1 = "d\<lparr>webGLRC := Some (gl_readPixels (off_x (texOffset region)) (off_y (texOffset region))
               (ext_width (texExtent region)) (ext_height (texExtent region)) gl)\<rparr>"
  have "webGLRC ?d1 \<noteq> None" by simp
  from Cons.IH [OF this] gl show ?case by (simp add: Let_def)
qed

lemma readRegions_context:
  assumes "readRegions regions d = Inr d'" and "webGLRC d \<noteq> None"
  shows "webGLRC d' \<noteq> None"
proof -
  from readRegions_keeps [OF assms(1)] have "nativeBinding d' = nativeBinding d" by simp
  with assms(2) show ?thesis by (cases "webGLRC d'") (auto simp: nativeBinding_def)
qed

lemma bindFramebufferCached_Inr:
  "bindFramebufferCached fbo d = Inr d' \<Longrightarrow>
     cache_glFramebuffer (stateCache d') = fbo \<and> nativeBinding d' = Some fbo"
  by (cases "webGLRC d")
     (auto simp: bindFramebufferCached_def gl_bindFramebuffer_def nativeBinding_def)

lemma bindFramebufferCached_total:
  "webGLRC d \<noteq> None \<Longrightarrow> \<exists>d'. bindFramebufferCached fbo d = Inr d' \<and> webGLRC d' \<noteq> None"
  by (cases "webGLRC d") (auto simp: bindFramebufferCached_def)

text \<open>
  The copy completes on a device that has a context, for a framebuffer that has a colour
  texture and a destination buffer whose length fits the typed array.
\<close>

lemma copyFramebufferToBuffer_completes:
  assumes "webGLRC d \<noteq> None"
    and "gpuColorTextures (gpuFramebuffer srcFramebuffer) = tex0 # rest"
    and "length dstBuffer mod bytesPerElement (gpu_format tex0) = 0"
  shows "\<exists>d'. copyFramebufferToBuffer bytesPerElement d srcFramebuffer dstBuffer regions = Inr d'"
proof -
  let ?src = "glFramebuffer (gpuFramebuffer srcFramebuffer)"
  let ?cur = "cache_glFramebuffer (stateCache d)"
  obtain d1 where d1: "(if ?cur \<noteq> ?src then bindFramebufferCached ?src d else Inr d) = Inr d1"
    and c1: "webGLRC d1 \<noteq> None"
    using bindFramebufferCached_total [OF assms(1), of ?src] assms(1) by (cases "?cur = ?src") auto
  obtain d2 where d2: "readRegions regions d1 = Inr d2"
    using readRegions_total [OF c1] by blast
  have c2: "webGLRC d2 \<noteq> None" using readRegions_context [OF d2 c1] .
  obtain d3 where d3: "(if cache_glFramebuffer (stateCache d2) \<noteq> ?cur
                        then bindFramebufferCached ?cur d2 else Inr d2) = Inr d3"
    using bindFramebufferCached_total [OF c2, of ?cur]
    by (cases "cache_glFramebuffer (stateCache d2) = ?cur") auto
  from assms(2,3) d1 d2 d3 show ?thesis
    by (simp add: copyFramebufferToBuffer_def Let_def)
qed

text \<open>
  C6. When \<open>copyFramebufferToBuffer\<close> completes, for every source framebuffer, destination
  buffer and region list, the framebuffer recorded in the state cache is the one recorded
  before the call. When the call had to bind the source framebuffer, it binds the
  recorded one again, so the native binding is the framebuffer that the cache named
  before the call. When the cache agreed with the native binding before the call (the
  binding was changed or not), the native binding after the call is the one before it and
  the cache agrees with it.
\<close>

theorem copyFramebufferToBuffer_restores_binding:
  assumes run: "copyFramebufferToBuffer bytesPerElement d srcFramebuffer dstBuffer regions = Inr d'"
  shows "cache_glFramebuffer (stateCache d') = cache_glFramebuffer (stateCache d)
    \<and> (cache_glFramebuffer (stateCache d) \<noteq> glFramebuffer (gpuFramebuffer srcFramebuffer) \<longrightarrow>
          nativeBinding d' = Some (cache_glFramebuffer (stateCache d)))
    \<and> (nativeBinding d = Some (cache_glFramebuffer (stateCache d)) \<longrightarrow>
          nativeBinding d' = nativeBinding d
          \<and> nativeBinding d' = Some (cache_glFramebuffer (stateCache d')))"
proof -
  let ?src = "glFramebuffer (gpuFramebuffer srcFramebuffer)"
  let ?cur = "cache_glFramebuffer (stateCache d)"
  from run obtain tex0 rest where tex: "gpuColorTextures (gpuFramebuffer srcFramebuffer) = tex0 # rest"
    by (cases "gpuColorTextures (gpuFramebuffer srcFramebuffer)")
       (simp_all add: copyFramebufferToBuffer_def Let_def)
  show ?thesis
  proof (cases "?cur = ?src")
    case True
    with run tex obtain d2 where rd: "readRegions regions d = Inr d2"
      and fin: "(if cache_glFramebuffer (stateCache d2) \<noteq> ?cur
                 then bindFramebufferCached ?cur d2 else Inr d2) = Inr d'"
      by (cases "readRegions regions d")
         (simp_all add: copyFramebufferToBuffer_def Let_def split: if_splits)
    from readRegions_keeps [OF rd]
    have k: "stateCache d2 = stateCache d" "nativeBinding d2 = nativeBinding d"
      by simp_all
    from fin k have "d' = d2" by simp
    with k True show ?thesis by simp
  next
    case False
    with run tex obtain d1 where b1: "bindFramebufferCached ?src d = Inr d1"
      by (cases "bindFramebufferCached ?src d") (simp_all add: copyFramebufferToBuffer_def Let_def)
    with run tex False obtain d2 where rd: "readRegions regions d1 = Inr d2"
      and fin: "(if cache_glFramebuffer (stateCache d2) \<noteq> ?cur
                 then bindFramebufferCached ?cur d2 else Inr d2) = Inr d'"
      by (cases "readRegions regions d1")
         (simp_all add: copyFramebufferToBuffer_def Let_def split: if_splits)
    from bindFramebufferCached_Inr [OF b1] readRegions_keeps [OF rd]
    have "cache_glFramebuffer (stateCache d2) = ?src" by simp
    with fin False have "bindFramebufferCached ?cur d2 = Inr d'" by simp
    from bindFramebufferCached_Inr [OF this] False show ?thesis by simp
  qed
qed

lemma running_device_fields:
  "webGLRC running_device = Some (context_with float_table)"
  "cache_glFramebuffer (stateCache running_device) = None"
  "nativeBinding running_device = Some None"
  by (simp_all add: running_device_def new_WebGLDevice_def nativeBinding_def context_with_def)

theorem copyFramebufferToBuffer_restores_binding_witness:
  "cache_glFramebuffer (stateCache running_device) = None
   \<and> nativeBinding running_device = Some None
   \<and> glFramebuffer (gpuFramebuffer offscreen_framebuffer) = Some 7
   \<and> glFramebuffer (gpuFramebuffer default_framebuffer) = None
   \<and> (\<exists>d'. copyFramebufferToBuffer byte_arrays running_device offscreen_framebuffer
               [0, 0, 0, 0] [nullTexRegion] = Inr d'
          \<and> cache_glFramebuffer (stateCache d') = None \<and> nativeBinding d' = Some None)
   \<and> (\<exists>d'. copyFramebufferToBuffer byte_arrays running_device default_framebuffer
               [0, 0, 0, 0] [nullTexRegion] = Inr d'
          \<and> cache_glFramebuffer (stateCache d') = None \<and> nativeBinding d' = Some None)"
proof -
  have ctx: "webGLRC running_device \<noteq> None"
    by (simp add: running_device_fields)
  have off: "gpuColorTextures (gpuFramebuffer offscreen_framebuffer) = \<lparr>gpu_format = RGBA8\<rparr> # []"
    and off_fbo: "glFramebuffer (gpuFramebuffer offscreen_framebuffer) = Some 7"
    by (simp_all add: offscreen_framebuffer_def)
  have dfl: "gpuColorTextures (gpuFramebuffer default_framebuffer) = \<lparr>gpu_format = RGBA8\<rparr> # []"
    and dfl_fbo: "glFramebuffer (gpuFramebuffer default_framebuffer) = None"
    by (simp_all add: default_framebuffer_def)
  have len: "length [0::nat, 0, 0, 0] mod byte_arrays (gpu_format \<lparr>gpu_format = RGBA8\<rparr>) = 0"
    by (simp add: byte_arrays_def)
  from copyFramebufferToBuffer_completes
         [of running_device offscreen_framebuffer "\<lparr>gpu_format = RGBA8\<rparr>" "[]"
             "[0, 0, 0, 0]" byte_arrays "[nullTexRegion]"] ctx off len
  obtain d1
    where r1: "copyFramebufferToBuffer byte_arrays running_device offscreen_framebuffer
                 [0, 0, 0, 0] [nullTexRegion] = Inr d1" by blast
  from copyFramebufferToBuffer_completes
         [of running_device default_framebuffer "\<lparr>gpu_format = RGBA8\<rparr>" "[]"
             "[0, 0, 0, 0]" byte_arrays "[nullTexRegion]"] ctx dfl len
  obtain d2
    where r2: "copyFramebufferToBuffer byte_arrays running_device default_framebuffer
                 [0, 0, 0, 0] [nullTexRegion] = Inr d2" by blast
  from copyFramebufferToBuffer_restores_binding [OF r1]
  have p1: "cache_glFramebuffer (stateCache d1) = None \<and> nativeBinding d1 = Some None"
    by (simp add: running_device_fields off_fbo)
  from copyFramebufferToBuffer_restores_binding [OF r2]
  have p2: "cache_glFramebuffer (stateCache d2) = None \<and> nativeBinding d2 = Some None"
    by (simp add: running_device_fields dfl_fbo)
  from r1 p1 r2 p2 off_fbo dfl_fbo running_device_fields(2,3) show ?thesis by blast
qed

subsection \<open>What initialize leaves in the device\<close>

lemma initialize_Returns:
  assumes "getContext (canvasElm info) (webGLCtxAttribs p (configure info d)) = Returns gl"
  shows "initialize p be info d =
    (True, createNullTextures be
       ((buildFeatures (applyQuirks p (probeExtensions gl (deriveFormats (readSizes info
          (overrideDepthBits p (queryIdentity gl ((configure info d)\<lparr>webGLRC := Some gl\<rparr>))))))))
        \<lparr>webGLRC := Some (initStates gl),
          queue := createQueue be \<lparr>queue_info_type = GRAPHICS\<rparr>\<rparr>))"
  using assms by (simp add: initialize_def Let_def)

lemma initialize_Throws:
  assumes "getContext (canvasElm info) (webGLCtxAttribs p (configure info d)) = Throws"
  shows "initialize p be info d = (False, configure info d)"
  using assms by (simp add: initialize_def Let_def)

lemma initialize_ReturnsNull:
  assumes "getContext (canvasElm info) (webGLCtxAttribs p (configure info d)) = ReturnsNull"
  shows "initialize p be info d = (False, (configure info d)\<lparr>webGLRC := None\<rparr>)"
  using assms by (simp add: initialize_def Let_def)

lemma initialize_True_context:
  assumes "fst (initialize p be info d)"
  shows "\<exists>gl. getContext (canvasElm info) (webGLCtxAttribs p (configure info d)) = Returns gl"
proof (cases "getContext (canvasElm info) (webGLCtxAttribs p (configure info d))")
  case Throws
  with assms show ?thesis by (simp add: initialize_Throws)
next
  case ReturnsNull
  with assms show ?thesis by (simp add: initialize_ReturnsNull)
next
  case (Returns gl)
  then show ?thesis by simp
qed

lemma getContext_info_giving: "getContext (canvasElm (info_giving r)) a = r"
  by (simp add: info_giving_def canvas_giving_def)

lemma configure_owned:
  "queue (configure info d) = queue d \<and> nullTex2D (configure info d) = nullTex2D d
   \<and> nullTexCube (configure info d) = nullTexCube d \<and> webGLRC (configure info d) = webGLRC d
   \<and> canvas (configure info d) = Some (canvasElm info)"
  by (cases "info_isAntialias info"; cases "info_isPremultipliedAlpha info";
      cases "info_bindingMappingInfo info") (simp_all add: configure_def Let_def)

lemma queryIdentity_fields:
  "version (queryIdentity gl d) = VERSION gl \<and> maxTextureSize (queryIdentity gl d) = MAX_TEXTURE_SIZE gl
   \<and> depthBits (queryIdentity gl d) = DEPTH_BITS gl \<and> stencilBits (queryIdentity gl d) = STENCIL_BITS gl"
  by (cases "getExtension gl ''WEBGL_debug_renderer_info'' = None") (simp_all add: queryIdentity_def Let_def)

lemma overrideDepthBits_fields:
  "version (overrideDepthBits p d) = version d \<and> maxTextureSize (overrideDepthBits p d) = maxTextureSize d
   \<and> depthBits (overrideDepthBits p d) = (if ALIPAY p then 24 else depthBits d)
   \<and> stencilBits (overrideDepthBits p d) = stencilBits d"
  by (cases "ALIPAY p") (simp_all add: overrideDepthBits_def)

lemma readSizes_keeps:
  "version (readSizes info d) = version d \<and> maxTextureSize (readSizes info d) = maxTextureSize d
   \<and> depthBits (readSizes info d) = depthBits d \<and> stencilBits (readSizes info d) = stencilBits d"
  by (simp add: readSizes_def Let_def)

lemma deriveFormats_fields:
  "version (deriveFormats d) = version d \<and> maxTextureSize (deriveFormats d) = maxTextureSize d
   \<and> depthBits (deriveFormats d) = depthBits d \<and> stencilBits (deriveFormats d) = stencilBits d
   \<and> colorFmt (deriveFormats d) = RGBA8
   \<and> depthStencilFmt (deriveFormats d) = deriveDepthStencilFmt (depthBits d) (stencilBits d)"
  by (simp add: deriveFormats_def)

lemma probeExtensions_keeps:
  "extensions (probeExtensions gl d) = supportedExtensions gl
   \<and> version (probeExtensions gl d) = version d \<and> maxTextureSize (probeExtensions gl d) = maxTextureSize d
   \<and> depthBits (probeExtensions gl d) = depthBits d \<and> stencilBits (probeExtensions gl d) = stencilBits d
   \<and> colorFmt (probeExtensions gl d) = colorFmt d \<and> depthStencilFmt (probeExtensions gl d) = depthStencilFmt d"
  by (simp add: probeExtensions_def)

lemma probeExtensions_exts:
  "OES_texture_float (exts (probeExtensions gl d)) = getExtension gl ''OES_texture_float''
   \<and> OES_texture_float_linear (exts (probeExtensions gl d)) = getExtension gl ''OES_texture_float_linear''
   \<and> OES_texture_half_float (exts (probeExtensions gl d)) = getExtension gl ''OES_texture_half_float''
   \<and> OES_texture_half_float_linear (exts (probeExtensions gl d)) = getExtension gl ''OES_texture_half_float_linear''
   \<and> ANGLE_instanced_arrays (exts (probeExtensions gl d)) = getExtension gl ''ANGLE_instanced_arrays''"
  by (simp add: probeExtensions_def)

lemma applyQuirks_keeps:
  "extensions (applyQuirks p d) = extensions d
   \<and> version (applyQuirks p d) = version d \<and> maxTextureSize (applyQuirks p d) = maxTextureSize d
   \<and> depthBits (applyQuirks p d) = depthBits d \<and> stencilBits (applyQuirks p d) = stencilBits d
   \<and> colorFmt (applyQuirks p d) = colorFmt d \<and> depthStencilFmt (applyQuirks p d) = depthStencilFmt d"
  unfolding applyQuirks_def Let_def
  by (cases "browserType p = BROWSER_TYPE_UC"; cases "BYTEDANCE p \<and> os p = OS_IOS";
      cases "RUNTIME_BASED p \<and> \<not> VIVO p"; cases "oldRuntimeVAO (loadRuntime p)";
      cases "(os p = OS_IOS \<and> osMainVersion p \<le> 10) \<or> (WECHAT p \<and> os p = OS_ANDROID)";
      cases "WECHAT p";
      simp only: quirkInstancing_def quirkDepthTexture_def quirkVAO_def quirkDestroyShaders_def
        quirkCompressedTexSubImage_def if_True if_False;
      simp split del: if_split)

lemma applyQuirks_exts:
  "OES_texture_float (exts (applyQuirks p d)) = OES_texture_float (exts d)
   \<and> OES_texture_float_linear (exts (applyQuirks p d)) = OES_texture_float_linear (exts d)
   \<and> OES_texture_half_float (exts (applyQuirks p d)) = OES_texture_half_float (exts d)
   \<and> OES_texture_half_float_linear (exts (applyQuirks p d)) = OES_texture_half_float_linear (exts d)
   \<and> ANGLE_instanced_arrays (exts (applyQuirks p d)) =
        (if browserType p = BROWSER_TYPE_UC then None else ANGLE_instanced_arrays (exts d))"
  unfolding applyQuirks_def Let_def
  by (cases "browserType p = BROWSER_TYPE_UC"; cases "BYTEDANCE p \<and> os p = OS_IOS";
      cases "RUNTIME_BASED p \<and> \<not> VIVO p"; cases "oldRuntimeVAO (loadRuntime p)";
      cases "(os p = OS_IOS \<and> osMainVersion p \<le> 10) \<or> (WECHAT p \<and> os p = OS_ANDROID)";
      cases "WECHAT p";
      simp only: quirkInstancing_def quirkDepthTexture_def quirkVAO_def quirkDestroyShaders_def
        quirkCompressedTexSubImage_def if_True if_False;
      simp split del: if_split)

lemma setFeatureIf_apply:
  "setFeatureIf h f fs g = (if h \<noteq> None \<and> g = f then True else fs g)"
  by (simp add: setFeatureIf_def)

lemma buildFeatures_keeps:
  "exts (buildFeatures d) = exts d \<and> extensions (buildFeatures d) = extensions d
   \<and> version (buildFeatures d) = version d \<and> maxTextureSize (buildFeatures d) = maxTextureSize d
   \<and> depthBits (buildFeatures d) = depthBits d \<and> stencilBits (buildFeatures d) = stencilBits d
   \<and> colorFmt (buildFeatures d) = colorFmt d \<and> depthStencilFmt (buildFeatures d) = depthStencilFmt d"
  by (cases "OES_vertex_array_object (exts d) = None") (simp_all add: buildFeatures_def Let_def)

lemma buildFeatures_features:
  "features (buildFeatures d) =
     (let e = exts d;
          fs = (\<lambda>f. False);
          fs = setFeatureIf (WEBGL_color_buffer_float e) COLOR_FLOAT fs;
          fs = setFeatureIf (EXT_color_buffer_half_float e) COLOR_HALF_FLOAT fs;
          fs = setFeatureIf (OES_texture_float e) TEXTURE_FLOAT fs;
          fs = setFeatureIf (OES_texture_half_float e) TEXTURE_HALF_FLOAT fs;
          fs = setFeatureIf (OES_texture_float_linear e) TEXTURE_FLOAT_LINEAR fs;
          fs = setFeatureIf (OES_texture_half_float_linear e) TEXTURE_HALF_FLOAT_LINEAR fs;
          fs = fs(FORMAT_RGB8 := True);
          fs = setFeatureIf (WEBGL_depth_texture e) FORMAT_D16 fs;
          fs = setFeatureIf (WEBGL_depth_texture e) FORMAT_D24 fs;
          fs = setFeatureIf (WEBGL_depth_texture e) FORMAT_D24S8 fs;
          fs = setFeatureIf (OES_element_index_uint e) ELEMENT_INDEX_UINT fs;
          fs = setFeatureIf (ANGLE_instanced_arrays e) INSTANCED_ARRAYS fs;
          fs = setFeatureIf (WEBGL_compressed_texture_etc1 e) FORMAT_ETC1 fs;
          fs = setFeatureIf (WEBGL_compressed_texture_etc e) FORMAT_ETC2 fs;
          fs = setFeatureIf (WEBGL_compressed_texture_s3tc e) FORMAT_DXT fs;
          fs = setFeatureIf (WEBGL_compressed_texture_pvrtc e) FORMAT_PVRTC fs;
          fs = setFeatureIf (WEBGL_compressed_texture_astc e) FORMAT_ASTC fs
      in fs)"
  by (cases "OES_vertex_array_object (exts d) = None") (simp_all add: buildFeatures_def Let_def)

lemma buildFeatures_flags:
  "features (buildFeatures d) TEXTURE_FLOAT = (OES_texture_float (exts d) \<noteq> None)"
  "features (buildFeatures d) TEXTURE_HALF_FLOAT = (OES_texture_half_float (exts d) \<noteq> None)"
  "features (buildFeatures d) TEXTURE_FLOAT_LINEAR = (OES_texture_float_linear (exts d) \<noteq> None)"
  "features (buildFeatures d) TEXTURE_HALF_FLOAT_LINEAR = (OES_texture_half_float_linear (exts d) \<noteq> None)"
  "features (buildFeatures d) INSTANCED_ARRAYS = (ANGLE_instanced_arrays (exts d) \<noteq> None)"
  "features (buildFeatures d) FORMAT_RGB8"
  by (simp_all add: buildFeatures_features Let_def setFeatureIf_apply)

lemma createNullTextures_keeps:
  "features (createNullTextures be d) = features d \<and> exts (createNullTextures be d) = exts d
   \<and> queue (createNullTextures be d) = queue d
   \<and> extensions (createNullTextures be d) = extensions d
   \<and> version (createNullTextures be d) = version d
   \<and> maxTextureSize (createNullTextures be d) = maxTextureSize d
   \<and> colorFmt (createNullTextures be d) = colorFmt d
   \<and> depthStencilFmt (createNullTextures be d) = depthStencilFmt d
   \<and> depthBits (createNullTextures be d) = depthBits d
   \<and> stencilBits (createNullTextures be d) = stencilBits d"
  by (simp add: createNullTextures_def copyBuffersToTexture_def Let_def)

lemma createNullTextures_textures:
  "nullTex2D (createNullTextures be d) = Some (snd (texture_initialize be nullTex2DInfo new_WebGLTexture))
   \<and> nullTexCube (createNullTextures be d) = Some (snd (texture_initialize be nullTexCubeInfo new_WebGLTexture))"
  by (simp add: createNullTextures_def copyBuffersToTexture_def Let_def)

lemma createNullTextures_context:
  "webGLRC d = Some gl \<Longrightarrow>
   webGLRC (createNullTextures be d) =
     Some (gl\<lparr>calls := calls gl @
       [CmdFuncCopyBuffersToTexture
          [replicate (tex_size (snd (texture_initialize be nullTex2DInfo new_WebGLTexture))) 0]
          (snd (texture_initialize be nullTex2DInfo new_WebGLTexture))
          [nullTexRegion],
        CmdFuncCopyBuffersToTexture
          (replicate 6 (replicate (tex_size (snd (texture_initialize be nullTex2DInfo new_WebGLTexture))) 0))
          (snd (texture_initialize be nullTexCubeInfo new_WebGLTexture))
          [nullTexRegion\<lparr>texSubres := (texSubres nullTexRegion)\<lparr>layerCount := 6\<rparr>\<rparr>]]\<rparr>)"
  by (simp add: createNullTextures_def copyBuffersToTexture_def Let_def numeral_eq_Suc)

lemma initStates_binding: "FRAMEBUFFER_BINDING (initStates gl) = None"
  by (simp add: initStates_def Let_def gl_state_def gl_bindFramebuffer_def)

lemma initialize_fields:
  assumes "getContext (canvasElm info) (webGLCtxAttribs p (configure info d)) = Returns gl"
  shows "colorFmt (snd (initialize p be info d)) = RGBA8"
    and "depthStencilFmt (snd (initialize p be info d)) =
           deriveDepthStencilFmt (depthBits (snd (initialize p be info d))) (stencilBits (snd (initialize p be info d)))"
    and "depthBits (snd (initialize p be info d)) = (if ALIPAY p then 24 else DEPTH_BITS gl)"
    and "stencilBits (snd (initialize p be info d)) = STENCIL_BITS gl"
    and "version (snd (initialize p be info d)) = VERSION gl"
    and "maxTextureSize (snd (initialize p be info d)) = MAX_TEXTURE_SIZE gl"
    and "extensions (snd (initialize p be info d)) = supportedExtensions gl"
  by (simp_all add: initialize_Returns [OF assms] createNullTextures_keeps buildFeatures_keeps
        applyQuirks_keeps probeExtensions_keeps deriveFormats_fields readSizes_keeps
        overrideDepthBits_fields queryIdentity_fields cong: if_cong)

lemma initialize_flags:
  assumes "getContext (canvasElm info) (webGLCtxAttribs p (configure info d)) = Returns gl"
  shows "features (snd (initialize p be info d)) TEXTURE_FLOAT = (getExtension gl ''OES_texture_float'' \<noteq> None)"
    and "features (snd (initialize p be info d)) TEXTURE_FLOAT_LINEAR = (getExtension gl ''OES_texture_float_linear'' \<noteq> None)"
    and "features (snd (initialize p be info d)) TEXTURE_HALF_FLOAT = (getExtension gl ''OES_texture_half_float'' \<noteq> None)"
    and "features (snd (initialize p be info d)) TEXTURE_HALF_FLOAT_LINEAR = (getExtension gl ''OES_texture_half_float_linear'' \<noteq> None)"
    and "OES_texture_float (exts (snd (initialize p be info d))) = getExtension gl ''OES_texture_float''"
    and "OES_texture_float_linear (exts (snd (initialize p be info d))) = getExtension gl ''OES_texture_float_linear''"
    and "OES_texture_half_float (exts (snd (initialize p be info d))) = getExtension gl ''OES_texture_half_float''"
    and "OES_texture_half_float_linear (exts (snd (initialize p be info d))) = getExtension gl ''OES_texture_half_float_linear''"
    and "ANGLE_instanced_arrays (exts (snd (initialize p be info d))) =
           (if browserType p = BROWSER_TYPE_UC then None else getExtension gl ''ANGLE_instanced_arrays'')"
    and "features (snd (initialize p be info d)) INSTANCED_ARRAYS =
           (ANGLE_instanced_arrays (exts (snd (initialize p be info d))) \<noteq> None)"
    and "features (snd (initialize p be info d)) FORMAT_RGB8"
  by (simp_all add: initialize_Returns [OF assms] createNullTextures_keeps buildFeatures_flags
        buildFeatures_keeps applyQuirks_exts probeExtensions_exts cong: if_cong)

lemma initialize_owned:
  assumes "getContext (canvasElm info) (webGLCtxAttribs p (configure info d)) = Returns gl"
  shows "queue (snd (initialize p be info d)) = createQueue be \<lparr>queue_info_type = GRAPHICS\<rparr>"
    and "nullTex2D (snd (initialize p be info d)) = Some (snd (texture_initialize be nullTex2DInfo new_WebGLTexture))"
    and "nullTexCube (snd (initialize p be info d)) = Some (snd (texture_initialize be nullTexCubeInfo new_WebGLTexture))"
    and "webGLRC (snd (initialize p be info d)) =
     Some ((initStates gl)\<lparr>calls := calls (initStates gl) @
       [CmdFuncCopyBuffersToTexture
          [replicate (tex_size (snd (texture_initialize be nullTex2DInfo new_WebGLTexture))) 0]
          (snd (texture_initialize be nullTex2DInfo new_WebGLTexture))
          [nullTexRegion],
        CmdFuncCopyBuffersToTexture
          (replicate 6 (replicate (tex_size (snd (texture_initialize be nullTex2DInfo new_WebGLTexture))) 0))
          (snd (texture_initialize be nullTexCubeInfo new_WebGLTexture))
          [nullTexRegion\<lparr>texSubres := (texSubres nullTexRegion)\<lparr>layerCount := 6\<rparr>\<rparr>]]\<rparr>)"
  by (simp_all add: initialize_Returns [OF assms] createNullTextures_keeps createNullTextures_textures
        createNullTextures_context)

lemma destroy_fields:
  "fst (destroy d) =
     (case nullTex2D d of Some t \<Rightarrow> [TextureDestroy t] | None \<Rightarrow> [])
     @ (case nullTexCube d of Some t \<Rightarrow> [TextureDestroy t] | None \<Rightarrow> [])
     @ (case queue d of Some q \<Rightarrow> [QueueDestroy q] | None \<Rightarrow> [])"
  "nullTex2D (snd (destroy d)) = None" "nullTexCube (snd (destroy d)) = None"
  "queue (snd (destroy d)) = None" "webGLRC (snd (destroy d)) = None"
  "extensions (snd (destroy d)) = None"
  by (simp_all add: destroy_def Let_def)

subsection \<open>The depth-stencil format\<close>

text \<open>
  C4. The depth-stencil format is a function of the depth and stencil bit counts alone:
  (24, 8) gives D24S8, (24, 0) gives D24, (16, 8) gives D16S8, (16, 0) gives D16, and
  every other pair falls under the same rule, so that an unexpected depth such as 32 is
  treated as "not 24" and (32, 8) gives D16S8; the result is always one of the four
  formats. After \<open>initialize\<close> has acquired a context, the device's depth-stencil format
  is this function of the device's depth and stencil bits, which are the answers of the
  context (the depth bits being set to 24 in a build for the Alipay runtime), and the
  colour format is RGBA8.
\<close>

theorem depth_stencil_format_derivation:
  "deriveDepthStencilFmt 24 8 = D24S8 \<and> deriveDepthStencilFmt 24 0 = D24
   \<and> deriveDepthStencilFmt 16 8 = D16S8 \<and> deriveDepthStencilFmt 16 0 = D16
   \<and> deriveDepthStencilFmt 32 8 = D16S8
   \<and> deriveDepthStencilFmt depth stencil \<in> {D24S8, D24, D16S8, D16}
   \<and> (\<forall>gl. getContext (canvasElm info) (webGLCtxAttribs p (configure info d)) = Returns gl \<longrightarrow>
         colorFmt (snd (initialize p be info d)) = RGBA8
         \<and> depthStencilFmt (snd (initialize p be info d)) =
             deriveDepthStencilFmt (depthBits (snd (initialize p be info d)))
                                   (stencilBits (snd (initialize p be info d)))
         \<and> depthBits (snd (initialize p be info d)) = (if ALIPAY p then 24 else DEPTH_BITS gl)
         \<and> stencilBits (snd (initialize p be info d)) = STENCIL_BITS gl)"
proof -
  have table: "deriveDepthStencilFmt 24 8 = D24S8 \<and> deriveDepthStencilFmt 24 0 = D24
     \<and> deriveDepthStencilFmt 16 8 = D16S8 \<and> deriveDepthStencilFmt 16 0 = D16
     \<and> deriveDepthStencilFmt 32 8 = D16S8
     \<and> deriveDepthStencilFmt depth stencil \<in> {D24S8, D24, D16S8, D16}"
    by (simp add: deriveDepthStencilFmt_def)
  have "colorFmt (snd (initialize p be info d)) = RGBA8
         \<and> depthStencilFmt (snd (initialize p be info d)) =
             deriveDepthStencilFmt (depthBits (snd (initialize p be info d)))
                                   (stencilBits (snd (initialize p be info d)))
         \<and> depthBits (snd (initialize p be info d)) = (if ALIPAY p then 24 else DEPTH_BITS gl)
         \<and> stencilBits (snd (initialize p be info d)) = STENCIL_BITS gl"
    if "getContext (canvasElm info) (webGLCtxAttribs p (configure info d)) = Returns gl" for gl
    using initialize_fields(1-4) [OF that, of be] by blast
  with table show ?thesis by blast
qed

theorem depth_stencil_format_derivation_witness:
  "getContext (canvasElm (info_giving (Returns (context_with float_table))))
      (webGLCtxAttribs desktop_platform
         (configure (info_giving (Returns (context_with float_table))) new_WebGLDevice))
     = Returns (context_with float_table)
   \<and> colorFmt (snd (initialize desktop_platform working_backend
        (info_giving (Returns (context_with float_table))) new_WebGLDevice)) = RGBA8
   \<and> depthStencilFmt (snd (initialize desktop_platform working_backend
        (info_giving (Returns (context_with float_table))) new_WebGLDevice)) = D24S8"
proof -
  let ?info = "info_giving (Returns (context_with float_table))"
  let ?d' = "snd (initialize desktop_platform working_backend ?info new_WebGLDevice)"
  have gl: "getContext (canvasElm ?info) (webGLCtxAttribs desktop_platform (configure ?info new_WebGLDevice))
      = Returns (context_with float_table)"
    by (rule getContext_info_giving)
  from depth_stencil_format_derivation
         [of _ _ ?info desktop_platform new_WebGLDevice working_backend] gl
  have f: "colorFmt ?d' = RGBA8"
    "depthStencilFmt ?d' = deriveDepthStencilFmt (depthBits ?d') (stencilBits ?d')"
    "depthBits ?d' = (if ALIPAY desktop_platform then 24 else DEPTH_BITS (context_with float_table))"
    "stencilBits ?d' = STENCIL_BITS (context_with float_table)"
    by blast+
  have "(if ALIPAY desktop_platform then 24 else DEPTH_BITS (context_with float_table)) = 24"
    and "STENCIL_BITS (context_with float_table) = 8"
    by (simp_all add: desktop_platform_def context_with_def)
  with f(3,4) have "depthBits ?d' = 24" "stencilBits ?d' = 8"
    by (simp_all only:)
  with f(2) have "depthStencilFmt ?d' = deriveDepthStencilFmt 24 8"
    by (simp only:)
  then have "depthStencilFmt ?d' = D24S8"
    by (simp add: deriveDepthStencilFmt_def)
  with gl f(1) show ?thesis by blast
qed

subsection \<open>The float-texture feature flags\<close>

text \<open>
  C3, as stated, fails: a context that resolves \<open>OES_texture_float_linear\<close> and not
  \<open>OES_texture_float\<close> leaves the linear flag true and the base flag false.
\<close>

theorem linear_flag_without_base_flag:
  "fst (initialize desktop_platform working_backend
          (info_giving (Returns (context_with linear_only_table))) new_WebGLDevice)
   \<and> features (snd (initialize desktop_platform working_backend
          (info_giving (Returns (context_with linear_only_table))) new_WebGLDevice)) TEXTURE_FLOAT_LINEAR
   \<and> \<not> features (snd (initialize desktop_platform working_backend
          (info_giving (Returns (context_with linear_only_table))) new_WebGLDevice)) TEXTURE_FLOAT"
proof -
  let ?r = "initialize desktop_platform working_backend
          (info_giving (Returns (context_with linear_only_table))) new_WebGLDevice"
  have gl: "getContext (canvasElm (info_giving (Returns (context_with linear_only_table))))
      (webGLCtxAttribs desktop_platform (configure (info_giving (Returns (context_with linear_only_table))) new_WebGLDevice))
      = Returns (context_with linear_only_table)"
    by (rule getContext_info_giving)
  have "fst ?r" by (simp only: initialize_Returns [OF gl] fst_conv)
  moreover have "features (snd ?r) TEXTURE_FLOAT_LINEAR"
    by (simp only: initialize_flags(2) [OF gl] getExtension_linear_only) simp
  moreover have "\<not> features (snd ?r) TEXTURE_FLOAT"
    by (simp only: initialize_flags(1) [OF gl] getExtension_linear_only) simp
  ultimately show ?thesis by blast
qed

text \<open>
  C3, amended. After \<open>initialize\<close> has returned true, each of the four flags
  (texture-float, texture-half-float and their linear variants) is true exactly when the
  handle of its own extension resolved. So a linear-filtering flag is never true while its
  base-format flag is false, for every set of resolved handles in which the linear
  extension resolves only together with its base extension.
\<close>

theorem float_flags_follow_own_handles:
  assumes "initialize p be info d = (True, d')"
  shows "features d' TEXTURE_FLOAT = (OES_texture_float (exts d') \<noteq> None)
     \<and> features d' TEXTURE_FLOAT_LINEAR = (OES_texture_float_linear (exts d') \<noteq> None)
     \<and> features d' TEXTURE_HALF_FLOAT = (OES_texture_half_float (exts d') \<noteq> None)
     \<and> features d' TEXTURE_HALF_FLOAT_LINEAR = (OES_texture_half_float_linear (exts d') \<noteq> None)
     \<and> ((OES_texture_float_linear (exts d') \<noteq> None \<longrightarrow> OES_texture_float (exts d') \<noteq> None)
          \<longrightarrow> \<not> (features d' TEXTURE_FLOAT_LINEAR \<and> \<not> features d' TEXTURE_FLOAT))
     \<and> ((OES_texture_half_float_linear (exts d') \<noteq> None \<longrightarrow> OES_texture_half_float (exts d') \<noteq> None)
          \<longrightarrow> \<not> (features d' TEXTURE_HALF_FLOAT_LINEAR \<and> \<not> features d' TEXTURE_HALF_FLOAT))"
proof -
  from assms have "fst (initialize p be info d)" by simp
  from initialize_True_context [OF this] obtain gl
    where gl: "getContext (canvasElm info) (webGLCtxAttribs p (configure info d)) = Returns gl" ..
  from assms have d': "d' = snd (initialize p be info d)" by simp
  show ?thesis
    unfolding d' by (auto simp add: initialize_flags(1-8) [OF gl])
qed

theorem float_flags_follow_own_handles_witness:
  "initialize desktop_platform working_backend
          (info_giving (Returns (context_with float_table))) new_WebGLDevice
     = (True, snd (initialize desktop_platform working_backend
          (info_giving (Returns (context_with float_table))) new_WebGLDevice))
   \<and> OES_texture_float_linear (exts (snd (initialize desktop_platform working_backend
          (info_giving (Returns (context_with float_table))) new_WebGLDevice))) = Some 2
   \<and> OES_texture_float (exts (snd (initialize desktop_platform working_backend
          (info_giving (Returns (context_with float_table))) new_WebGLDevice))) = Some 1
   \<and> features (snd (initialize desktop_platform working_backend
          (info_giving (Returns (context_with float_table))) new_WebGLDevice)) TEXTURE_FLOAT_LINEAR
   \<and> features (snd (initialize desktop_platform working_backend
          (info_giving (Returns (context_with float_table))) new_WebGLDevice)) TEXTURE_FLOAT"
proof -
  let ?r = "initialize desktop_platform working_backend
          (info_giving (Returns (context_with float_table))) new_WebGLDevice"
  have gl: "getContext (canvasElm (info_giving (Returns (context_with float_table))))
      (webGLCtxAttribs desktop_platform (configure (info_giving (Returns (context_with float_table))) new_WebGLDevice))
      = Returns (context_with float_table)"
    by (rule getContext_info_giving)
  have r: "?r = (True, snd ?r)"
    by (simp only: initialize_Returns [OF gl] snd_conv)
  have h: "OES_texture_float_linear (exts (snd ?r)) = Some 2" "OES_texture_float (exts (snd ?r)) = Some 1"
    by (simp_all only: initialize_flags(5,6) [OF gl] getExtension_float_table)
  from float_flags_follow_own_handles [OF r] h have "features (snd ?r) TEXTURE_FLOAT_LINEAR"
    "features (snd ?r) TEXTURE_FLOAT" by simp_all
  with r h show ?thesis by blast
qed

subsection \<open>The result of initialize\<close>

text \<open>
  C1, as stated, fails: with a backend whose queue initializer reports failure,
  \<open>createQueue\<close> returns null, the default queue of the device stays null, and
  \<open>initialize\<close> still returns true.
\<close>

theorem initialize_true_without_default_queue:
  "\<not> fst (queue_initialize failing_backend \<lparr>queue_info_type = GRAPHICS\<rparr> new_WebGLQueue)
   \<and> fst (initialize desktop_platform failing_backend
          (info_giving (Returns (context_with float_table))) new_WebGLDevice)
   \<and> queue (snd (initialize desktop_platform failing_backend
          (info_giving (Returns (context_with float_table))) new_WebGLDevice)) = None"
proof -
  let ?r = "initialize desktop_platform failing_backend
          (info_giving (Returns (context_with float_table))) new_WebGLDevice"
  have gl: "getContext (canvasElm (info_giving (Returns (context_with float_table))))
      (webGLCtxAttribs desktop_platform (configure (info_giving (Returns (context_with float_table))) new_WebGLDevice))
      = Returns (context_with float_table)"
    by (rule getContext_info_giving)
  have "\<not> fst (queue_initialize failing_backend \<lparr>queue_info_type = GRAPHICS\<rparr> new_WebGLQueue)"
    by (simp add: failing_backend_def)
  moreover have "fst ?r" by (simp only: initialize_Returns [OF gl] fst_conv)
  moreover have "createQueue failing_backend \<lparr>queue_info_type = GRAPHICS\<rparr> = None"
    by (simp add: createQueue_def failing_backend_def)
  then have "queue (snd ?r) = None"
    by (simp only: initialize_owned(1) [OF gl])
  ultimately show ?thesis by blast
qed

text \<open>
  C1, amended. \<open>initialize\<close> returns false when the acquisition of the context fails
  (the call throws or returns nothing); it has then created no queue and no default
  texture, so that \<open>destroy\<close> calls \<open>destroy()\<close> on the same objects as before
  \<open>initialize\<close> (on none, for a new device) and leaves queue, default textures and
  context null. It returns true only if the context was acquired. When the context is
  acquired and the initializers of the default queue and of both default textures report
  success, it returns true with every step completed: identity and limits read from the
  context, colour and depth-stencil format derived, extensions resolved with the platform
  rules applied, feature flags set from the handles, the baseline state established with
  the default framebuffer bound, the default queue in place, and both default textures
  in place with a zero-filled upload into each.
\<close>

theorem initialize_result:
  assumes run: "initialize p be info d = (ok, d')"
  shows "(getContext (canvasElm info) (webGLCtxAttribs p (configure info d)) = Throws
          \<or> getContext (canvasElm info) (webGLCtxAttribs p (configure info d)) = ReturnsNull
          \<longrightarrow> \<not> ok
              \<and> queue d' = queue d \<and> nullTex2D d' = nullTex2D d \<and> nullTexCube d' = nullTexCube d
              \<and> fst (destroy d') = fst (destroy d)
              \<and> queue (snd (destroy d')) = None \<and> nullTex2D (snd (destroy d')) = None
              \<and> nullTexCube (snd (destroy d')) = None \<and> webGLRC (snd (destroy d')) = None)
     \<and> (ok \<longrightarrow> (\<exists>gl. getContext (canvasElm info) (webGLCtxAttribs p (configure info d)) = Returns gl))
     \<and> (\<forall>gl. getContext (canvasElm info) (webGLCtxAttribs p (configure info d)) = Returns gl
              \<and> fst (queue_initialize be \<lparr>queue_info_type = GRAPHICS\<rparr> new_WebGLQueue)
              \<and> fst (texture_initialize be nullTex2DInfo new_WebGLTexture)
              \<and> fst (texture_initialize be nullTexCubeInfo new_WebGLTexture)
          \<longrightarrow> ok
              \<and> version d' = VERSION gl \<and> maxTextureSize d' = MAX_TEXTURE_SIZE gl
              \<and> stencilBits d' = STENCIL_BITS gl
              \<and> colorFmt d' = RGBA8
              \<and> depthStencilFmt d' = deriveDepthStencilFmt (depthBits d') (stencilBits d')
              \<and> extensions d' = supportedExtensions gl
              \<and> OES_texture_float (exts d') = getExtension gl ''OES_texture_float''
              \<and> ANGLE_instanced_arrays (exts d') =
                   (if browserType p = BROWSER_TYPE_UC then None
                    else getExtension gl ''ANGLE_instanced_arrays'')
              \<and> features d' INSTANCED_ARRAYS = (ANGLE_instanced_arrays (exts d') \<noteq> None)
              \<and> features d' FORMAT_RGB8
              \<and> nativeBinding d' = Some None
              \<and> queue d' = Some (snd (queue_initialize be \<lparr>queue_info_type = GRAPHICS\<rparr> new_WebGLQueue))
              \<and> nullTex2D d' = Some (snd (texture_initialize be nullTex2DInfo new_WebGLTexture))
              \<and> nullTexCube d' = Some (snd (texture_initialize be nullTexCubeInfo new_WebGLTexture))
              \<and> webGLRC d' =
                   Some ((initStates gl)\<lparr>calls := calls (initStates gl) @
                     [CmdFuncCopyBuffersToTexture
                        [replicate (tex_size (snd (texture_initialize be nullTex2DInfo new_WebGLTexture))) 0]
                        (snd (texture_initialize be nullTex2DInfo new_WebGLTexture))
                        [nullTexRegion],
                      CmdFuncCopyBuffersToTexture
                        (replicate 6 (replicate (tex_size (snd (texture_initialize be nullTex2DInfo new_WebGLTexture))) 0))
                        (snd (texture_initialize be nullTexCubeInfo new_WebGLTexture))
                        [nullTexRegion\<lparr>texSubres := (texSubres nullTexRegion)\<lparr>layerCount := 6\<rparr>\<rparr>]]\<rparr>))"
proof -
  let ?ctx = "getContext (canvasElm info) (webGLCtxAttribs p (configure info d))"
  from run have ok: "ok = fst (initialize p be info d)" and d': "d' = snd (initialize p be info d)"
    by simp_all
  have failure: "\<not> ok
              \<and> queue d' = queue d \<and> nullTex2D d' = nullTex2D d \<and> nullTexCube d' = nullTexCube d
              \<and> fst (destroy d') = fst (destroy d)
              \<and> queue (snd (destroy d')) = None \<and> nullTex2D (snd (destroy d')) = None
              \<and> nullTexCube (snd (destroy d')) = None \<and> webGLRC (snd (destroy d')) = None"
    if "?ctx = Throws \<or> ?ctx = ReturnsNull"
  proof -
    from that have r: "\<not> ok \<and> queue d' = queue d \<and> nullTex2D d' = nullTex2D d \<and> nullTexCube d' = nullTexCube d"
    proof
      assume "?ctx = Throws"
      then show ?thesis
        unfolding ok d' by (simp add: initialize_Throws configure_owned)
    next
      assume "?ctx = ReturnsNull"
      then show ?thesis
        unfolding ok d' by (simp add: initialize_ReturnsNull configure_owned)
    qed
    then have "fst (destroy d') = fst (destroy d)"
      by (simp add: destroy_fields(1))
    with r show ?thesis by (simp add: destroy_fields(2-5))
  qed
  have only_if: "\<exists>gl. ?ctx = Returns gl" if ok
    using that initialize_True_context [of p be info d] by (simp add: ok)
  have success: "ok
              \<and> version d' = VERSION gl \<and> maxTextureSize d' = MAX_TEXTURE_SIZE gl
              \<and> stencilBits d' = STENCIL_BITS gl
              \<and> colorFmt d' = RGBA8
              \<and> depthStencilFmt d' = deriveDepthStencilFmt (depthBits d') (stencilBits d')
              \<and> extensions d' = supportedExtensions gl
              \<and> OES_texture_float (exts d') = getExtension gl ''OES_texture_float''
              \<and> ANGLE_instanced_arrays (exts d') =
                   (if browserType p = BROWSER_TYPE_UC then None
                    else getExtension gl ''ANGLE_instanced_arrays'')
              \<and> features d' INSTANCED_ARRAYS = (ANGLE_instanced_arrays (exts d') \<noteq> None)
              \<and> features d' FORMAT_RGB8
              \<and> nativeBinding d' = Some None
              \<and> queue d' = Some (snd (queue_initialize be \<lparr>queue_info_type = GRAPHICS\<rparr> new_WebGLQueue))
              \<and> nullTex2D d' = Some (snd (texture_initialize be nullTex2DInfo new_WebGLTexture))
              \<and> nullTexCube d' = Some (snd (texture_initialize be nullTexCubeInfo new_WebGLTexture))
              \<and> webGLRC d' =
                   Some ((initStates gl)\<lparr>calls := calls (initStates gl) @
                     [CmdFuncCopyBuffersToTexture
                        [replicate (tex_size (snd (texture_initialize be nullTex2DInfo new_WebGLTexture))) 0]
                        (snd (texture_initialize be nullTex2DInfo new_WebGLTexture))
                        [nullTexRegion],
                      CmdFuncCopyBuffersToTexture
                        (replicate 6 (replicate (tex_size (snd (texture_initialize be nullTex2DInfo new_WebGLTexture))) 0))
                        (snd (texture_initialize be nullTexCubeInfo new_WebGLTexture))
                        [nullTexRegion\<lparr>texSubres := (texSubres nullTexRegion)\<lparr>layerCount := 6\<rparr>\<rparr>]]\<rparr>)"
    if gl: "?ctx = Returns gl"
      and q: "fst (queue_initialize be \<lparr>queue_info_type = GRAPHICS\<rparr> new_WebGLQueue)"
    for gl
  proof -
    have "ok" unfolding ok by (simp only: initialize_Returns [OF gl] fst_conv)
    moreover have "queue d' = Some (snd (queue_initialize be \<lparr>queue_info_type = GRAPHICS\<rparr> new_WebGLQueue))"
      unfolding d' using q by (simp add: initialize_owned(1) [OF gl] createQueue_def)
    moreover have ctx: "webGLRC d' =
                   Some ((initStates gl)\<lparr>calls := calls (initStates gl) @
                     [CmdFuncCopyBuffersToTexture
                        [replicate (tex_size (snd (texture_initialize be nullTex2DInfo new_WebGLTexture))) 0]
                        (snd (texture_initialize be nullTex2DInfo new_WebGLTexture))
                        [nullTexRegion],
                      CmdFuncCopyBuffersToTexture
                        (replicate 6 (replicate (tex_size (snd (texture_initialize be nullTex2DInfo new_WebGLTexture))) 0))
                        (snd (texture_initialize be nullTexCubeInfo new_WebGLTexture))
                        [nullTexRegion\<lparr>texSubres := (texSubres nullTexRegion)\<lparr>layerCount := 6\<rparr>\<rparr>]]\<rparr>)"
      unfolding d' by (rule initialize_owned(4) [OF gl])
    moreover from ctx have "nativeBinding d' = Some None"
      by (simp add: nativeBinding_def initStates_binding)
    moreover have "version d' = VERSION gl \<and> maxTextureSize d' = MAX_TEXTURE_SIZE gl
              \<and> stencilBits d' = STENCIL_BITS gl \<and> colorFmt d' = RGBA8
              \<and> depthStencilFmt d' = deriveDepthStencilFmt (depthBits d') (stencilBits d')
              \<and> extensions d' = supportedExtensions gl"
      unfolding d' using initialize_fields [OF gl, of be] by blast
    moreover have "OES_texture_float (exts d') = getExtension gl ''OES_texture_float''
              \<and> ANGLE_instanced_arrays (exts d') =
                   (if browserType p = BROWSER_TYPE_UC then None
                    else getExtension gl ''ANGLE_instanced_arrays'')
              \<and> features d' INSTANCED_ARRAYS = (ANGLE_instanced_arrays (exts d') \<noteq> None)
              \<and> features d' FORMAT_RGB8"
      unfolding d' using initialize_flags(5,9,10,11) [OF gl, of be] by blast
    moreover have "nullTex2D d' = Some (snd (texture_initialize be nullTex2DInfo new_WebGLTexture))
              \<and> nullTexCube d' = Some (snd (texture_initialize be nullTexCubeInfo new_WebGLTexture))"
      unfolding d' using initialize_owned(2,3) [OF gl, of be] by blast
    ultimately show ?thesis by blast
  qed
  from failure only_if success show ?thesis by blast
qed

theorem initialize_result_witness:
  "getContext (canvasElm (info_giving Throws))
      (webGLCtxAttribs desktop_platform (configure (info_giving Throws) new_WebGLDevice)) = Throws
   \<and> \<not> fst (initialize desktop_platform working_backend (info_giving Throws) new_WebGLDevice)
   \<and> fst (destroy (snd (initialize desktop_platform working_backend (info_giving Throws) new_WebGLDevice))) = []
   \<and> getContext (canvasElm (info_giving (Returns (context_with float_table))))
        (webGLCtxAttribs desktop_platform
           (configure (info_giving (Returns (context_with float_table))) new_WebGLDevice))
       = Returns (context_with float_table)
   \<and> fst (queue_initialize working_backend \<lparr>queue_info_type = GRAPHICS\<rparr> new_WebGLQueue)
   \<and> fst (texture_initialize working_backend nullTex2DInfo new_WebGLTexture)
   \<and> fst (texture_initialize working_backend nullTexCubeInfo new_WebGLTexture)
   \<and> fst (initialize desktop_platform working_backend
        (info_giving (Returns (context_with float_table))) new_WebGLDevice)
   \<and> colorFmt (snd (initialize desktop_platform working_backend
        (info_giving (Returns (context_with float_table))) new_WebGLDevice)) = RGBA8
   \<and> nativeBinding (snd (initialize desktop_platform working_backend
        (info_giving (Returns (context_with float_table))) new_WebGLDevice)) = Some None
   \<and> queue (snd (initialize desktop_platform working_backend
        (info_giving (Returns (context_with float_table))) new_WebGLDevice))
       = Some (snd (queue_initialize working_backend \<lparr>queue_info_type = GRAPHICS\<rparr> new_WebGLQueue))"
proof -
  let ?bad = "initialize desktop_platform working_backend (info_giving Throws) new_WebGLDevice"
  let ?good = "initialize desktop_platform working_backend
        (info_giving (Returns (context_with float_table))) new_WebGLDevice"
  have throws: "getContext (canvasElm (info_giving Throws))
      (webGLCtxAttribs desktop_platform (configure (info_giving Throws) new_WebGLDevice)) = Throws"
    by (rule getContext_info_giving)
  have returns: "getContext (canvasElm (info_giving (Returns (context_with float_table))))
        (webGLCtxAttribs desktop_platform
           (configure (info_giving (Returns (context_with float_table))) new_WebGLDevice))
       = Returns (context_with float_table)"
    by (rule getContext_info_giving)
  have inits: "fst (queue_initialize working_backend \<lparr>queue_info_type = GRAPHICS\<rparr> new_WebGLQueue)"
    "fst (texture_initialize working_backend nullTex2DInfo new_WebGLTexture)"
    "fst (texture_initialize working_backend nullTexCubeInfo new_WebGLTexture)"
    by (simp_all add: working_backend_def)
  have fresh: "fst (destroy new_WebGLDevice) = []"
    by (simp add: destroy_fields(1) new_WebGLDevice_def)
  have bad: "?bad = (fst ?bad, snd ?bad)" and good: "?good = (fst ?good, snd ?good)"
    by simp_all
  from initialize_result [OF bad] throws
  have "\<not> fst ?bad \<and> fst (destroy (snd ?bad)) = fst (destroy new_WebGLDevice)"
    by blast
  with fresh have a: "\<not> fst ?bad \<and> fst (destroy (snd ?bad)) = []"
    by simp
  from initialize_result [OF good] returns inits
  have b: "fst ?good \<and> colorFmt (snd ?good) = RGBA8 \<and> nativeBinding (snd ?good) = Some None
     \<and> queue (snd ?good)
         = Some (snd (queue_initialize working_backend \<lparr>queue_info_type = GRAPHICS\<rparr> new_WebGLQueue))"
    by blast
  from throws returns inits a b show ?thesis by blast
qed

subsection \<open>The resource factory\<close>

text \<open>
  Thirteen of the fourteen factory methods return the object exactly when its initializer
  reports success, and null otherwise.
\<close>

lemma factory_checks_initializer:
  "createBuffer be info =
     (if fst (object_initialize be info (new_object WebGLBuffer_class))
      then Some (snd (object_initialize be info (new_object WebGLBuffer_class))) else None)"
  "createTexture be tinfo =
     (if fst (texture_initialize be tinfo new_WebGLTexture)
      then Some (snd (texture_initialize be tinfo new_WebGLTexture)) else None)"
  "createSampler be info =
     (if fst (object_initialize be info (new_object WebGLSampler_class))
      then Some (snd (object_initialize be info (new_object WebGLSampler_class))) else None)"
  "createDescriptorSet be info =
     (if fst (object_initialize be info (new_object WebGLDescriptorSet_class))
      then Some (snd (object_initialize be info (new_object WebGLDescriptorSet_class))) else None)"
  "createShader be info =
     (if fst (object_initialize be info (new_object WebGLShader_class))
      then Some (snd (object_initialize be info (new_object WebGLShader_class))) else None)"
  "createInputAssembler be info =
     (if fst (object_initialize be info (new_object WebGLInputAssembler_class))
      then Some (snd (object_initialize be info (new_object WebGLInputAssembler_class))) else None)"
  "createRenderPass be info =
     (if fst (object_initialize be info (new_object WebGLRenderPass_class))
      then Some (snd (object_initialize be info (new_object WebGLRenderPass_class))) else None)"
  "createFramebuffer be info =
     (if fst (object_initialize be info (new_object WebGLFramebuffer_class))
      then Some (snd (object_initialize be info (new_object WebGLFramebuffer_class))) else None)"
  "createDescriptorSetLayout be info =
     (if fst (object_initialize be info (new_object WebGLDescriptorSetLayout_class))
      then Some (snd (object_initialize be info (new_object WebGLDescriptorSetLayout_class))) else None)"
  "createPipelineLayout be info =
     (if fst (object_initialize be info (new_object WebGLPipelineLayout_class))
      then Some (snd (object_initialize be info (new_object WebGLPipelineLayout_class))) else None)"
  "createPipelineState be info =
     (if fst (object_initialize be info (new_object WebGLPipelineState_class))
      then Some (snd (object_initialize be info (new_object WebGLPipelineState_class))) else None)"
  "createFence be info =
     (if fst (object_initialize be info (new_object WebGLFence_class))
      then Some (snd (object_initialize be info (new_object WebGLFence_class))) else None)"
  "createQueue be qinfo =
     (if fst (queue_initialize be qinfo new_WebGLQueue)
      then Some (snd (queue_initialize be qinfo new_WebGLQueue)) else None)"
  by (simp_all add: createBuffer_def createTexture_def createSampler_def createDescriptorSet_def
        createShader_def createInputAssembler_def createRenderPass_def createFramebuffer_def
        createDescriptorSetLayout_def createPipelineLayout_def createPipelineState_def
        createFence_def createQueue_def Let_def)

text \<open>\<open>createCommandBuffer\<close> returns the object whatever its initializer reports.\<close>

lemma createCommandBuffer_always_object:
  "createCommandBuffer be info =
     Some (snd (cmdbuf_initialize be info
       (new_object (if cmdbuf_type info = PRIMARY then WebGLPrimaryCommandBuffer_class
                    else WebGLCommandBuffer_class))))"
  by (simp add: createCommandBuffer_def Let_def)

text \<open>
  C2. The claim is that every factory method, the one for command buffers included,
  returns the object if and only if its initializer reports success and null otherwise.
  \<open>createCommandBuffer\<close> does not read the result of the initializer: with a backend
  whose command-buffer initializer reports failure, for a primary and for a secondary
  command buffer, it returns the object and not null, where \<open>createBuffer\<close> and
  \<open>createQueue\<close> on the same backend return null.
\<close>

theorem createCommandBuffer_ignores_initializer:
  "\<not> fst (cmdbuf_initialize failing_backend \<lparr>cmdbuf_type = PRIMARY\<rparr>
            (new_object WebGLPrimaryCommandBuffer_class))
   \<and> createCommandBuffer failing_backend \<lparr>cmdbuf_type = PRIMARY\<rparr>
        = Some (new_object WebGLPrimaryCommandBuffer_class)
   \<and> \<not> fst (cmdbuf_initialize failing_backend \<lparr>cmdbuf_type = SECONDARY\<rparr>
            (new_object WebGLCommandBuffer_class))
   \<and> createCommandBuffer failing_backend \<lparr>cmdbuf_type = SECONDARY\<rparr>
        = Some (new_object WebGLCommandBuffer_class)
   \<and> \<not> fst (object_initialize failing_backend () (new_object WebGLBuffer_class))
   \<and> createBuffer failing_backend () = None
   \<and> createQueue failing_backend \<lparr>queue_info_type = GRAPHICS\<rparr> = None"
  by (simp add: createCommandBuffer_def createBuffer_def createQueue_def failing_backend_def Let_def)

end
